theory Spec2Isabelle
  imports Complex_Main
begin

section \<open>Domain model (AGLTypes.h)\<close>

text \<open>
  The four enumerations of \<^verbatim>\<open>AGLTypes.h\<close>. Each C++ \<^verbatim>\<open>enum class\<close> becomes a datatype
  whose constructors are the enumerators, in declaration order. A constructor name that
  occurs in two enumerations carries the enumeration as a prefix.
\<close>

datatype EAGLEmotionType =
  Happy | Excited | Amazed | Proud | Satisfied | Cheerful | Grateful | Sad
  | Disappointed | Frustrated | Angry | Worried | Tired | Neutral

datatype EAGLEventType =
  Victory | Defeat | Kill | Death | Achievement | LevelUp | Loot | SessionStart
  | SessionEnd

datatype EAGLPersona = Persona_Cheerful | Persona_Cool | Persona_Cute

datatype EAGLMemoryType =
  MemoryType_Achievement | MemoryType_Milestone | MemoryType_FirstTime | MemoryType_Dramatic
  | MemoryType_Conversation | MemoryType_Event | MemoryType_Observation

section \<open>String comparison of the engine\<close>

text \<open>
  \<^verbatim>\<open>FString::operator==\<close>, also against a \<^verbatim>\<open>TEXT("...")\<close> literal, ignores the case of the
  ASCII letters and compares every other character exactly. It is the comparison the
  decoders of the wire tables use and the comparison of the keys of a \<^verbatim>\<open>TMap<FString, V>\<close>.
\<close>

definition ToLower :: "char \<Rightarrow> char" where
  "ToLower c =
     (case map_of (zip ''ABCDEFGHIJKLMNOPQRSTUVWXYZ'' ''abcdefghijklmnopqrstuvwxyz'') c of
        Some l \<Rightarrow> l
      | None \<Rightarrow> c)"

definition FString_eq :: "string \<Rightarrow> string \<Rightarrow> bool" where
  "FString_eq a b \<longleftrightarrow> map ToLower a = map ToLower b"

section \<open>Enum wire tables\<close>

text \<open>
  \<^verbatim>\<open>UAGLEmotionService::EventTypeToString\<close> and \<^verbatim>\<open>UAGLDialogueService::EventTypeToString\<close>
  are the same switch, written once per service. The \<^verbatim>\<open>default:\<close> branch of each switch
  is reached only by a byte that is no enumerator, which the datatype excludes.
\<close>

fun Emotion_EventTypeToString :: "EAGLEventType \<Rightarrow> string" where
  "Emotion_EventTypeToString Victory = ''player.victory''"
| "Emotion_EventTypeToString Defeat = ''player.defeat''"
| "Emotion_EventTypeToString Kill = ''player.kill''"
| "Emotion_EventTypeToString Death = ''player.death''"
| "Emotion_EventTypeToString Achievement = ''player.achievement''"
| "Emotion_EventTypeToString LevelUp = ''player.levelup''"
| "Emotion_EventTypeToString Loot = ''player.loot''"
| "Emotion_EventTypeToString SessionStart = ''player.sessionstart''"
| "Emotion_EventTypeToString SessionEnd = ''player.sessionend''"

fun Dialogue_EventTypeToString :: "EAGLEventType \<Rightarrow> string" where
  "Dialogue_EventTypeToString Victory = ''player.victory''"
| "Dialogue_EventTypeToString Defeat = ''player.defeat''"
| "Dialogue_EventTypeToString Kill = ''player.kill''"
| "Dialogue_EventTypeToString Death = ''player.death''"
| "Dialogue_EventTypeToString Achievement = ''player.achievement''"
| "Dialogue_EventTypeToString LevelUp = ''player.levelup''"
| "Dialogue_EventTypeToString Loot = ''player.loot''"
| "Dialogue_EventTypeToString SessionStart = ''player.sessionstart''"
| "Dialogue_EventTypeToString SessionEnd = ''player.sessionend''"

text \<open>\<^verbatim>\<open>UAGLDialogueService::EmotionTypeToString\<close>.\<close>

fun EmotionTypeToString :: "EAGLEmotionType \<Rightarrow> string" where
  "EmotionTypeToString Happy = ''happy''"
| "EmotionTypeToString Excited = ''excited''"
| "EmotionTypeToString Amazed = ''amazed''"
| "EmotionTypeToString Proud = ''proud''"
| "EmotionTypeToString Satisfied = ''satisfied''"
| "EmotionTypeToString Cheerful = ''cheerful''"
| "EmotionTypeToString Grateful = ''grateful''"
| "EmotionTypeToString Sad = ''sad''"
| "EmotionTypeToString Disappointed = ''disappointed''"
| "EmotionTypeToString Frustrated = ''frustrated''"
| "EmotionTypeToString Angry = ''angry''"
| "EmotionTypeToString Worried = ''worried''"
| "EmotionTypeToString Tired = ''tired''"
| "EmotionTypeToString Neutral = ''neutral''"

text \<open>\<^verbatim>\<open>UAGLDialogueService::PersonaToString\<close>.\<close>

fun PersonaToString :: "EAGLPersona \<Rightarrow> string" where
  "PersonaToString Persona_Cheerful = ''cheerful''"
| "PersonaToString Persona_Cool = ''cool''"
| "PersonaToString Persona_Cute = ''cute''"

text \<open>
  \<^verbatim>\<open>UAGLEmotionService::StringToEmotionType\<close>: a chain of \<^verbatim>\<open>EmotionString == TEXT("...")\<close>
  comparisons in the order of the source, ending in \<^verbatim>\<open>return EAGLEmotionType::Neutral\<close>.
  There is no comparison against \<^verbatim>\<open>"neutral"\<close>.
\<close>

definition StringToEmotionType :: "string \<Rightarrow> EAGLEmotionType" where
  "StringToEmotionType EmotionString =
     (if FString_eq EmotionString ''happy'' then Happy
      else if FString_eq EmotionString ''excited'' then Excited
      else if FString_eq EmotionString ''amazed'' then Amazed
      else if FString_eq EmotionString ''proud'' then Proud
      else if FString_eq EmotionString ''satisfied'' then Satisfied
      else if FString_eq EmotionString ''cheerful'' then Cheerful
      else if FString_eq EmotionString ''grateful'' then Grateful
      else if FString_eq EmotionString ''sad'' then Sad
      else if FString_eq EmotionString ''disappointed'' then Disappointed
      else if FString_eq EmotionString ''frustrated'' then Frustrated
      else if FString_eq EmotionString ''angry'' then Angry
      else if FString_eq EmotionString ''worried'' then Worried
      else if FString_eq EmotionString ''tired'' then Tired
      else Neutral)"

text \<open>\<^verbatim>\<open>UAGLMemoryService::MemoryTypeToString\<close> and \<^verbatim>\<open>StringToMemoryType\<close>.\<close>

fun MemoryTypeToString :: "EAGLMemoryType \<Rightarrow> string" where
  "MemoryTypeToString MemoryType_Achievement = ''achievement''"
| "MemoryTypeToString MemoryType_Milestone = ''milestone''"
| "MemoryTypeToString MemoryType_FirstTime = ''first_time''"
| "MemoryTypeToString MemoryType_Dramatic = ''dramatic''"
| "MemoryTypeToString MemoryType_Conversation = ''conversation''"
| "MemoryTypeToString MemoryType_Event = ''event''"
| "MemoryTypeToString MemoryType_Observation = ''observation''"

definition StringToMemoryType :: "string \<Rightarrow> EAGLMemoryType" where
  "StringToMemoryType TypeString =
     (if FString_eq TypeString ''achievement'' then MemoryType_Achievement
      else if FString_eq TypeString ''milestone'' then MemoryType_Milestone
      else if FString_eq TypeString ''first_time'' then MemoryType_FirstTime
      else if FString_eq TypeString ''dramatic'' then MemoryType_Dramatic
      else if FString_eq TypeString ''conversation'' then MemoryType_Conversation
      else if FString_eq TypeString ''event'' then MemoryType_Event
      else if FString_eq TypeString ''observation'' then MemoryType_Observation
      else MemoryType_Event)"

section \<open>Engine types the SDK is written against\<close>

text \<open>
  \<^verbatim>\<open>TMap<FString, V>\<close>: a list of key/value pairs in insertion order, whose keys are
  compared as \<^verbatim>\<open>FString\<close>s. \<^verbatim>\<open>TMap::Add\<close> replaces the pair of a key that is present and
  appends the pair otherwise; \<^verbatim>\<open>Find\<close> looks a key up; \<^verbatim>\<open>Num() > 0\<close> is non-emptiness of
  the list. \<^verbatim>\<open>int32\<close> values are integers (the SDK does no arithmetic on them) and
  \<^verbatim>\<open>float\<close> values are reals.
\<close>

type_synonym 'v TMap = "(string \<times> 'v) list"

fun TMap_Add :: "string \<Rightarrow> 'v \<Rightarrow> 'v TMap \<Rightarrow> 'v TMap" where
  "TMap_Add k v [] = [(k, v)]"
| "TMap_Add k v (p # ps) =
     (if FString_eq (fst p) k then (k, v) # ps else p # TMap_Add k v ps)"

fun TMap_Find :: "'v TMap \<Rightarrow> string \<Rightarrow> 'v option" where
  "TMap_Find [] k = None"
| "TMap_Find (p # ps) k = (if FString_eq (fst p) k then Some (snd p) else TMap_Find ps k)"

text \<open>
  The JSON document model of the engine (\<^verbatim>\<open>FJsonValue\<close>, \<^verbatim>\<open>FJsonObject\<close>). An object is
  the \<^verbatim>\<open>TMap\<close> of its \<^verbatim>\<open>Values\<close> member, which \<^verbatim>\<open>DeserializeMemory\<close> iterates directly.
\<close>

datatype FJsonValue =
  JNull
  | JBool bool
  | JNumber real
  | JString string
  | JArray "FJsonValue list"
  | JObject "(string \<times> FJsonValue) list"

type_synonym FJsonObject = "FJsonValue TMap"

text \<open>\<^verbatim>\<open>FJsonObject::SetStringField\<close>, \<^verbatim>\<open>SetBoolField\<close>, \<^verbatim>\<open>SetNumberField\<close>, \<^verbatim>\<open>SetObjectField\<close>.\<close>

definition SetStringField :: "string \<Rightarrow> string \<Rightarrow> FJsonObject \<Rightarrow> FJsonObject" where
  "SetStringField FieldName StringValue obj = TMap_Add FieldName (JString StringValue) obj"

definition SetBoolField :: "string \<Rightarrow> bool \<Rightarrow> FJsonObject \<Rightarrow> FJsonObject" where
  "SetBoolField FieldName InValue obj = TMap_Add FieldName (JBool InValue) obj"

definition SetNumberField :: "string \<Rightarrow> real \<Rightarrow> FJsonObject \<Rightarrow> FJsonObject" where
  "SetNumberField FieldName Number obj = TMap_Add FieldName (JNumber Number) obj"

definition SetObjectField :: "string \<Rightarrow> FJsonObject \<Rightarrow> FJsonObject \<Rightarrow> FJsonObject" where
  "SetObjectField FieldName JsonObject obj = TMap_Add FieldName (JObject JsonObject) obj"

text \<open>
  The reading side of the engine's JSON library, as far as the SDK leaves it open. It is a
  parameter of every decoder.
  \<^item> \<open>Deserialize\<close> is \<^verbatim>\<open>FJsonSerializer::Deserialize(Reader, JsonObject)\<close> followed by
    \<^verbatim>\<open>JsonObject.IsValid()\<close>: \<open>None\<close> when either is false.
  \<^item> \<open>NumberToString\<close> is the text the engine gives for a number value.
  \<^item> \<open>TryGetNumber_float\<close>, \<open>TryGetNumber_int32\<close>, \<open>TryGetBool\<close> and \<open>TryGetObject\<close> are
    the \<^verbatim>\<open>FJsonValue::TryGet...\<close> accessors of those names: \<open>None\<close> when the accessor
    returns false, in which case the output argument keeps its value. \<open>TryGetObject\<close>
    yields a shared pointer, which the SDK tests with \<^verbatim>\<open>IsValid()\<close>: \<open>Some None\<close> is a
    null pointer.
\<close>

record FJsonLib =
  Deserialize :: "string \<Rightarrow> FJsonObject option"
  NumberToString :: "real \<Rightarrow> string"
  TryGetNumber_float :: "FJsonValue \<Rightarrow> real option"
  TryGetNumber_int32 :: "FJsonValue \<Rightarrow> int option"
  TryGetBool :: "FJsonValue \<Rightarrow> bool option"
  TryGetObject :: "FJsonValue \<Rightarrow> FJsonObject option option"

text \<open>
  \<^verbatim>\<open>FJsonValue::TryGetString\<close>: a string value gives its string, a number value its text,
  a boolean value \<^verbatim>\<open>true\<close> or \<^verbatim>\<open>false\<close>; on null, on an array and on an object the
  accessor returns false. \<^verbatim>\<open>FJsonValue::TryGetArray\<close> succeeds on an array only.
\<close>

fun TryGetString :: "FJsonLib \<Rightarrow> FJsonValue \<Rightarrow> string option" where
  "TryGetString L (JString s) = Some s"
| "TryGetString L (JNumber x) = Some (NumberToString L x)"
| "TryGetString L (JBool b) = Some (if b then ''true'' else ''false'')"
| "TryGetString L JNull = None"
| "TryGetString L (JArray xs) = None"
| "TryGetString L (JObject obj) = None"

fun TryGetArray :: "FJsonValue \<Rightarrow> FJsonValue list option" where
  "TryGetArray (JArray xs) = Some xs"
| "TryGetArray JNull = None"
| "TryGetArray (JBool b) = None"
| "TryGetArray (JNumber x) = None"
| "TryGetArray (JString s) = None"
| "TryGetArray (JObject obj) = None"

text \<open>
  \<^verbatim>\<open>FJsonObject::TryGet...Field\<close>: look the field up, then apply the accessor of the value.
  A missing field makes the call return false.
\<close>

definition TryGetField :: "FJsonObject \<Rightarrow> string \<Rightarrow> FJsonValue option" where
  "TryGetField obj FieldName = TMap_Find obj FieldName"

definition TryGetStringField :: "FJsonLib \<Rightarrow> FJsonObject \<Rightarrow> string \<Rightarrow> string option" where
  "TryGetStringField L obj FieldName =
     (case TryGetField obj FieldName of None \<Rightarrow> None | Some v \<Rightarrow> TryGetString L v)"

definition TryGetNumberField_float :: "FJsonLib \<Rightarrow> FJsonObject \<Rightarrow> string \<Rightarrow> real option" where
  "TryGetNumberField_float L obj FieldName =
     (case TryGetField obj FieldName of None \<Rightarrow> None | Some v \<Rightarrow> TryGetNumber_float L v)"

definition TryGetNumberField_int32 :: "FJsonLib \<Rightarrow> FJsonObject \<Rightarrow> string \<Rightarrow> int option" where
  "TryGetNumberField_int32 L obj FieldName =
     (case TryGetField obj FieldName of None \<Rightarrow> None | Some v \<Rightarrow> TryGetNumber_int32 L v)"

definition TryGetBoolField :: "FJsonLib \<Rightarrow> FJsonObject \<Rightarrow> string \<Rightarrow> bool option" where
  "TryGetBoolField L obj FieldName =
     (case TryGetField obj FieldName of None \<Rightarrow> None | Some v \<Rightarrow> TryGetBool L v)"

definition TryGetArrayField :: "FJsonObject \<Rightarrow> string \<Rightarrow> FJsonValue list option" where
  "TryGetArrayField obj FieldName =
     (case TryGetField obj FieldName of None \<Rightarrow> None | Some v \<Rightarrow> TryGetArray v)"

definition TryGetObjectField ::
  "FJsonLib \<Rightarrow> FJsonObject \<Rightarrow> string \<Rightarrow> FJsonObject option option" where
  "TryGetObjectField L obj FieldName =
     (case TryGetField obj FieldName of None \<Rightarrow> None | Some v \<Rightarrow> TryGetObject L v)"

text \<open>
  The writing side. \<^verbatim>\<open>FJsonSerializer::Serialize\<close> through a \<^verbatim>\<open>TJsonWriter<>\<close> turns the
  object an encoder has built into the payload text. The layout of that text is fixed by
  the default template arguments of the engine's writer and not by the SDK, so the writer
  is a parameter \<open>write\<close> of every encoder.

  \<open>WriteCondensed\<close> is the condensed layout of the engine (no white space; a string in
  double quotes with the double quote, the backslash and the control characters escaped; the pairs of an
  object in the order of its \<^verbatim>\<open>Values\<close>), the layout the tests of the repository look
  for. The text of a number is its argument \<open>num\<close>. It serves to show a payload as text.
\<close>

definition hex_digit :: "nat \<Rightarrow> char" where
  "hex_digit n = ''0123456789abcdef'' ! n"

definition EscapeJsonChar :: "char \<Rightarrow> string" where
  "EscapeJsonChar c =
     (if c = CHR 0x5C then [CHR 0x5C, CHR 0x5C]
      else if c = CHR 0x0A then [CHR 0x5C, CHR ''n'']
      else if c = CHR 0x09 then [CHR 0x5C, CHR ''t'']
      else if c = CHR 0x08 then [CHR 0x5C, CHR ''b'']
      else if c = CHR 0x0C then [CHR 0x5C, CHR ''f'']
      else if c = CHR 0x0D then [CHR 0x5C, CHR ''r'']
      else if c = CHR 0x22 then [CHR 0x5C, CHR 0x22]
      else if (of_char c :: nat) < 32
      then [CHR 0x5C, CHR ''u'', CHR ''0'', CHR ''0'',
            hex_digit (of_char c div 16), hex_digit (of_char c mod 16)]
      else [c])"

definition WriteStringValue :: "string \<Rightarrow> string" where
  "WriteStringValue s = [CHR 0x22] @ concat (map EscapeJsonChar s) @ [CHR 0x22]"

fun join_comma :: "string list \<Rightarrow> string" where
  "join_comma [] = []"
| "join_comma [x] = x"
| "join_comma (x # y # ys) = x @ '','' @ join_comma (y # ys)"

fun WriteValue :: "(real \<Rightarrow> string) \<Rightarrow> FJsonValue \<Rightarrow> string" where
  "WriteValue num JNull = ''null''"
| "WriteValue num (JBool b) = (if b then ''true'' else ''false'')"
| "WriteValue num (JNumber x) = num x"
| "WriteValue num (JString s) = WriteStringValue s"
| "WriteValue num (JArray xs) = ''['' @ join_comma (map (WriteValue num) xs) @ '']''"
| "WriteValue num (JObject obj) =
     ''{'' @ join_comma (map (\<lambda>p. WriteStringValue (fst p) @ '':'' @ WriteValue num (snd p)) obj)
       @ ''}''"

definition WriteCondensed :: "(real \<Rightarrow> string) \<Rightarrow> FJsonObject \<Rightarrow> string" where
  "WriteCondensed num obj = WriteValue num (JObject obj)"

text \<open>
  Modelled from the spec: \<^verbatim>\<open>FString::FromInt\<close> is an engine function that is not part of
  the repository; the spec (4.2) gives its result as the decimal string of the number.
\<close>

fun nat_to_decimal :: "nat \<Rightarrow> string" where
  "nat_to_decimal n =
     (if n < 10 then [''0123456789'' ! n]
      else nat_to_decimal (n div 10) @ [''0123456789'' ! (n mod 10)])"

declare nat_to_decimal.simps [simp del]

definition FromInt :: "int \<Rightarrow> string" where
  "FromInt Num =
     (if Num < 0 then CHR ''-'' # nat_to_decimal (nat (- Num)) else nat_to_decimal (nat Num))"

text \<open>
  Reading a decimal string back: the value of a digit sequence, with a leading minus sign
  negating it. It states what a decimal rendering is.
\<close>

definition digit_value :: "char \<Rightarrow> nat" where
  "digit_value c = of_char c - 48"

definition decimal_value :: "string \<Rightarrow> nat" where
  "decimal_value s = foldl (\<lambda>acc c. 10 * acc + digit_value c) 0 s"

definition decimal_to_int :: "string \<Rightarrow> int" where
  "decimal_to_int s =
     (case s of
        [] \<Rightarrow> 0
      | c # cs \<Rightarrow> if c = CHR ''-'' then - int (decimal_value cs) else int (decimal_value s))"

text \<open>
  The transport's completion report: \<^verbatim>\<open>FHttpResponsePtr\<close> is a shared pointer (\<open>None\<close>
  when \<^verbatim>\<open>IsValid()\<close> is false) to a response with a status code and a body.
\<close>

record FHttpResponse =
  GetResponseCode :: int
  GetContentAsString :: string

section \<open>Request and response structs (AGLTypes.h)\<close>

text \<open>
  Each \<^verbatim>\<open>USTRUCT\<close> is a record; a field \<open>F\<close> of struct \<^verbatim>\<open>FAGLXyz\<close> is named \<open>Xyz_F\<close>.
  The \<open>_default\<close> constant of a struct is the value of a variable declared without
  arguments (\<^verbatim>\<open>FAGLMemory EmptyMemory;\<close>): every member takes its initializer from the
  declaration, a string or container without one is empty. An enum member of a response
  struct has no initializer; it is \<open>None\<close> until the decoder assigns it.
\<close>

record FAGLConfig =
  Config_ApiKey :: string
  Config_ApiBaseUrl :: string
  Config_EmotionServiceUrl :: string
  Config_DialogueServiceUrl :: string
  Config_MemoryServiceUrl :: string
  Config_Timeout :: real

definition FAGLConfig_default :: FAGLConfig where
  "FAGLConfig_default =
     \<lparr>Config_ApiKey = '''',
      Config_ApiBaseUrl = ''http://localhost:3000'',
      Config_EmotionServiceUrl = ''http://localhost:8000'',
      Config_DialogueServiceUrl = ''http://localhost:8001'',
      Config_MemoryServiceUrl = ''http://localhost:3002'',
      Config_Timeout = 30\<rparr>"

record FAGLEmotionRequest =
  EmotionRequest_EventType :: EAGLEventType
  EmotionRequest_Data :: "string TMap"
  EmotionRequest_Context :: "string TMap"
  EmotionRequest_bForceML :: bool

record FAGLEmotionResponse =
  EmotionResponse_Emotion :: "EAGLEmotionType option"
  EmotionResponse_Intensity :: real
  EmotionResponse_Action :: string
  EmotionResponse_Confidence :: real
  EmotionResponse_Reasoning :: string
  EmotionResponse_Method :: string
  EmotionResponse_Cost :: real
  EmotionResponse_bCacheHit :: bool
  EmotionResponse_LatencyMs :: int

definition FAGLEmotionResponse_default :: FAGLEmotionResponse where
  "FAGLEmotionResponse_default =
     \<lparr>EmotionResponse_Emotion = None,
      EmotionResponse_Intensity = 0,
      EmotionResponse_Action = '''',
      EmotionResponse_Confidence = 0,
      EmotionResponse_Reasoning = '''',
      EmotionResponse_Method = '''',
      EmotionResponse_Cost = 0,
      EmotionResponse_bCacheHit = False,
      EmotionResponse_LatencyMs = 0\<rparr>"

record FAGLDialogueRequest =
  DialogueRequest_EventType :: EAGLEventType
  DialogueRequest_Emotion :: EAGLEmotionType
  DialogueRequest_Persona :: EAGLPersona
  DialogueRequest_PlayerId :: string
  DialogueRequest_Language :: string
  DialogueRequest_Context :: "string TMap"
  DialogueRequest_bForceLLM :: bool

record FAGLDialogueResponse =
  DialogueResponse_Dialogue :: string
  DialogueResponse_Method :: string
  DialogueResponse_Cost :: real
  DialogueResponse_bUsedSpecialCase :: bool
  DialogueResponse_SpecialCaseReasons :: "string list"
  DialogueResponse_MemoryCount :: int
  DialogueResponse_bCacheHit :: bool
  DialogueResponse_LatencyMs :: int

definition FAGLDialogueResponse_default :: FAGLDialogueResponse where
  "FAGLDialogueResponse_default =
     \<lparr>DialogueResponse_Dialogue = '''',
      DialogueResponse_Method = '''',
      DialogueResponse_Cost = 0,
      DialogueResponse_bUsedSpecialCase = False,
      DialogueResponse_SpecialCaseReasons = [],
      DialogueResponse_MemoryCount = 0,
      DialogueResponse_bCacheHit = False,
      DialogueResponse_LatencyMs = 0\<rparr>"


record FAGLMemory =
  Memory_Id :: string
  Memory_PlayerId :: string
  Memory_Type :: "EAGLMemoryType option"
  Memory_Content :: string
  Memory_Emotion :: string
  Memory_Importance :: int
  Memory_Context :: "string TMap"
  Memory_CreatedAt :: string

definition FAGLMemory_default :: FAGLMemory where
  "FAGLMemory_default =
     \<lparr>Memory_Id = '''',
      Memory_PlayerId = '''',
      Memory_Type = None,
      Memory_Content = '''',
      Memory_Emotion = '''',
      Memory_Importance = 0,
      Memory_Context = [],
      Memory_CreatedAt = ''''\<rparr>"

record FAGLMemorySearchResult =
  MemorySearchResult_Memory :: FAGLMemory
  MemorySearchResult_SimilarityScore :: real

definition FAGLMemorySearchResult_default :: FAGLMemorySearchResult where
  "FAGLMemorySearchResult_default =
     \<lparr>MemorySearchResult_Memory = FAGLMemory_default,
      MemorySearchResult_SimilarityScore = 0\<rparr>"

record FAGLSearchMemoriesRequest =
  SearchMemoriesRequest_Query :: string
  SearchMemoriesRequest_Limit :: int

record FAGLGetContextRequest =
  GetContextRequest_CurrentEvent :: string
  GetContextRequest_Limit :: int

section \<open>Shared pieces of the three services\<close>

text \<open>
  The loop \<^verbatim>\<open>for (const auto& Pair : Map) Object->SetStringField(Pair.Key, Pair.Value)\<close>,
  which each request encoder runs over a fresh object.
\<close>

definition SetStringFields :: "string TMap \<Rightarrow> FJsonObject \<Rightarrow> FJsonObject" where
  "SetStringFields Map Object =
     fold (\<lambda>Pair obj. SetStringField (fst Pair) (snd Pair) obj) Map Object"

text \<open>
  A call \<^verbatim>\<open>Object->TryGetXField(Name, Target)\<close> whose result decides whether \<open>Target\<close>
  is written: \<open>store\<close> is the assignment, skipped when the accessor returns false.
\<close>

definition out_arg :: "'a option \<Rightarrow> ('a \<Rightarrow> 'r \<Rightarrow> 'r) \<Rightarrow> 'r \<Rightarrow> 'r" where
  "out_arg res store r = (case res of None \<Rightarrow> r | Some v \<Rightarrow> store v r)"

text \<open>
  The members \<^verbatim>\<open>ServiceUrl\<close>, \<^verbatim>\<open>ApiKey\<close>, \<^verbatim>\<open>Timeout\<close>, which the three service classes
  declare alike, and their \<^verbatim>\<open>Initialize\<close>, three assignments in each class.
\<close>

record UAGLService =
  ServiceUrl :: string
  ApiKey :: string
  Timeout :: real

definition Emotion_Initialize :: "string \<Rightarrow> string \<Rightarrow> real \<Rightarrow> UAGLService" where
  "Emotion_Initialize InServiceUrl InApiKey InTimeout =
     \<lparr>ServiceUrl = InServiceUrl, ApiKey = InApiKey, Timeout = InTimeout\<rparr>"

definition Dialogue_Initialize :: "string \<Rightarrow> string \<Rightarrow> real \<Rightarrow> UAGLService" where
  "Dialogue_Initialize InServiceUrl InApiKey InTimeout =
     \<lparr>ServiceUrl = InServiceUrl, ApiKey = InApiKey, Timeout = InTimeout\<rparr>"

definition Memory_Initialize :: "string \<Rightarrow> string \<Rightarrow> real \<Rightarrow> UAGLService" where
  "Memory_Initialize InServiceUrl InApiKey InTimeout =
     \<lparr>ServiceUrl = InServiceUrl, ApiKey = InApiKey, Timeout = InTimeout\<rparr>"

section \<open>Emotion service (AGLEmotionService.cpp)\<close>

text \<open>
  \<^verbatim>\<open>CreateVictoryRequest\<close>: a default request whose \<^verbatim>\<open>EventType\<close> is assigned first, then
  two \<^verbatim>\<open>Data.Add\<close> calls.
\<close>

definition CreateVictoryRequest :: "bool \<Rightarrow> int \<Rightarrow> FAGLEmotionRequest" where
  "CreateVictoryRequest bIsMVP WinStreak =
     (let Request = \<lparr>EmotionRequest_EventType = Victory, EmotionRequest_Data = [],
                      EmotionRequest_Context = [], EmotionRequest_bForceML = False\<rparr>;
          Request1 = Request\<lparr>EmotionRequest_Data :=
                       TMap_Add ''mvp'' (if bIsMVP then ''true'' else ''false'')
                         (EmotionRequest_Data Request)\<rparr>;
          Request2 = Request1\<lparr>EmotionRequest_Data :=
                       TMap_Add ''winStreak'' (FromInt WinStreak)
                         (EmotionRequest_Data Request1)\<rparr>
      in Request2)"

text \<open>
  \<^verbatim>\<open>UAGLEmotionService::SerializeRequest\<close>. \<open>Emotion_SerializeRequest_Object\<close> is the
  \<^verbatim>\<open>JsonObject\<close> the function builds; the function returns \<^verbatim>\<open>OutputString\<close>, the text
  the writer \<open>write\<close> makes of it.
\<close>

definition Emotion_SerializeRequest_Object :: "FAGLEmotionRequest \<Rightarrow> FJsonObject" where
  "Emotion_SerializeRequest_Object Request =
     (let JsonObject = [];
          JsonObject1 = SetStringField ''type''
                          (Emotion_EventTypeToString (EmotionRequest_EventType Request)) JsonObject;
          JsonObject2 = SetBoolField ''force_ml'' (EmotionRequest_bForceML Request) JsonObject1;
          DataObject = SetStringFields (EmotionRequest_Data Request) [];
          JsonObject3 = SetObjectField ''data'' DataObject JsonObject2;
          JsonObject4 =
            (if 0 < length (EmotionRequest_Context Request)
             then SetObjectField ''context''
                    (SetStringFields (EmotionRequest_Context Request) []) JsonObject3
             else JsonObject3)
      in JsonObject4)"

definition Emotion_SerializeRequest ::
  "(FJsonObject \<Rightarrow> string) \<Rightarrow> FAGLEmotionRequest \<Rightarrow> string" where
  "Emotion_SerializeRequest write Request = write (Emotion_SerializeRequest_Object Request)"

text \<open>\<^verbatim>\<open>UAGLEmotionService::DeserializeResponse\<close>.\<close>

definition Emotion_DeserializeResponse :: "FJsonLib \<Rightarrow> string \<Rightarrow> FAGLEmotionResponse" where
  "Emotion_DeserializeResponse L JsonString =
     (let Response = FAGLEmotionResponse_default in
      case Deserialize L JsonString of
        None \<Rightarrow> Response
      | Some JsonObject \<Rightarrow>
          (let R1 = out_arg (TryGetStringField L JsonObject ''emotion'')
                      (\<lambda>EmotionString r.
                         r\<lparr>EmotionResponse_Emotion := Some (StringToEmotionType EmotionString)\<rparr>)
                      Response;
               R2 = out_arg (TryGetNumberField_float L JsonObject ''intensity'')
                      (\<lambda>v r. r\<lparr>EmotionResponse_Intensity := v\<rparr>) R1;
               R3 = out_arg (TryGetNumberField_float L JsonObject ''confidence'')
                      (\<lambda>v r. r\<lparr>EmotionResponse_Confidence := v\<rparr>) R2;
               R4 = out_arg (TryGetNumberField_float L JsonObject ''cost'')
                      (\<lambda>v r. r\<lparr>EmotionResponse_Cost := v\<rparr>) R3;
               R5 = out_arg (TryGetNumberField_int32 L JsonObject ''latency_ms'')
                      (\<lambda>v r. r\<lparr>EmotionResponse_LatencyMs := v\<rparr>) R4;
               R6 = out_arg (TryGetStringField L JsonObject ''action'')
                      (\<lambda>v r. r\<lparr>EmotionResponse_Action := v\<rparr>) R5;
               R7 = out_arg (TryGetStringField L JsonObject ''reasoning'')
                      (\<lambda>v r. r\<lparr>EmotionResponse_Reasoning := v\<rparr>) R6;
               R8 = out_arg (TryGetStringField L JsonObject ''method'')
                      (\<lambda>v r. r\<lparr>EmotionResponse_Method := v\<rparr>) R7;
               R9 = out_arg (TryGetBoolField L JsonObject ''cache_hit'')
                      (\<lambda>v r. r\<lparr>EmotionResponse_bCacheHit := v\<rparr>) R8
           in R9))"

text \<open>
  \<^verbatim>\<open>UAGLEmotionService::HandleEmotionResponse\<close>. Every path of a handler ends in one
  \<^verbatim>\<open>Callback.ExecuteIfBound(ok, value)\<close>; the model returns the pair \<open>(ok, value)\<close> of
  that call. The \<^verbatim>\<open>Request\<close> argument is not read.
\<close>

definition HandleEmotionResponse ::
  "FJsonLib \<Rightarrow> FHttpResponse option \<Rightarrow> bool \<Rightarrow> bool \<times> FAGLEmotionResponse" where
  "HandleEmotionResponse L Response bWasSuccessful =
     (if \<not> bWasSuccessful \<or> Response = None then (False, FAGLEmotionResponse_default)
      else if GetResponseCode (the Response) \<noteq> 200 then (False, FAGLEmotionResponse_default)
      else (True, Emotion_DeserializeResponse L (GetContentAsString (the Response))))"

section \<open>Dialogue service (AGLDialogueService.cpp)\<close>

text \<open>\<^verbatim>\<open>UAGLDialogueService::SerializeRequest\<close>, split as for the emotion service.\<close>

definition Dialogue_SerializeRequest_Object :: "FAGLDialogueRequest \<Rightarrow> FJsonObject" where
  "Dialogue_SerializeRequest_Object Request =
     (let JsonObject = [];
          JsonObject1 = SetStringField ''event_type''
                          (Dialogue_EventTypeToString (DialogueRequest_EventType Request))
                          JsonObject;
          JsonObject2 = SetStringField ''emotion''
                          (EmotionTypeToString (DialogueRequest_Emotion Request)) JsonObject1;
          JsonObject3 = SetStringField ''persona''
                          (PersonaToString (DialogueRequest_Persona Request)) JsonObject2;
          JsonObject4 = SetBoolField ''force_llm'' (DialogueRequest_bForceLLM Request) JsonObject3;
          JsonObject5 =
            (if DialogueRequest_PlayerId Request \<noteq> []
             then SetStringField ''player_id'' (DialogueRequest_PlayerId Request) JsonObject4
             else JsonObject4);
          JsonObject6 =
            (if DialogueRequest_Language Request \<noteq> []
             then SetStringField ''language'' (DialogueRequest_Language Request) JsonObject5
             else JsonObject5);
          JsonObject7 =
            (if 0 < length (DialogueRequest_Context Request)
             then SetObjectField ''context''
                    (SetStringFields (DialogueRequest_Context Request) []) JsonObject6
             else JsonObject6)
      in JsonObject7)"

definition Dialogue_SerializeRequest ::
  "(FJsonObject \<Rightarrow> string) \<Rightarrow> FAGLDialogueRequest \<Rightarrow> string" where
  "Dialogue_SerializeRequest write Request = write (Dialogue_SerializeRequest_Object Request)"

text \<open>
  The loop over \<^verbatim>\<open>*ReasonsArray\<close> in \<^verbatim>\<open>DeserializeResponse\<close>: an element whose
  \<^verbatim>\<open>TryGetString\<close> succeeds is added at the end of \<^verbatim>\<open>SpecialCaseReasons\<close>.
\<close>

definition AddReasons :: "FJsonLib \<Rightarrow> FJsonValue list \<Rightarrow> string list \<Rightarrow> string list" where
  "AddReasons L ReasonsArray Reasons =
     fold (\<lambda>ReasonValue acc.
             case TryGetString L ReasonValue of
               Some Reason \<Rightarrow> acc @ [Reason]
             | None \<Rightarrow> acc)
       ReasonsArray Reasons"

text \<open>\<^verbatim>\<open>UAGLDialogueService::DeserializeResponse\<close>.\<close>

definition Dialogue_DeserializeResponse :: "FJsonLib \<Rightarrow> string \<Rightarrow> FAGLDialogueResponse" where
  "Dialogue_DeserializeResponse L JsonString =
     (let Response = FAGLDialogueResponse_default in
      case Deserialize L JsonString of
        None \<Rightarrow> Response
      | Some JsonObject \<Rightarrow>
          (let R1 = out_arg (TryGetStringField L JsonObject ''dialogue'')
                      (\<lambda>v r. r\<lparr>DialogueResponse_Dialogue := v\<rparr>) Response;
               R2 = out_arg (TryGetStringField L JsonObject ''method'')
                      (\<lambda>v r. r\<lparr>DialogueResponse_Method := v\<rparr>) R1;
               R3 = out_arg (TryGetNumberField_float L JsonObject ''cost'')
                      (\<lambda>v r. r\<lparr>DialogueResponse_Cost := v\<rparr>) R2;
               R4 = out_arg (TryGetNumberField_int32 L JsonObject ''latency_ms'')
                      (\<lambda>v r. r\<lparr>DialogueResponse_LatencyMs := v\<rparr>) R3;
               R5 = out_arg (TryGetBoolField L JsonObject ''used_special_case'')
                      (\<lambda>v r. r\<lparr>DialogueResponse_bUsedSpecialCase := v\<rparr>) R4;
               R6 = out_arg (TryGetBoolField L JsonObject ''cache_hit'')
                      (\<lambda>v r. r\<lparr>DialogueResponse_bCacheHit := v\<rparr>) R5;
               R7 = out_arg (TryGetNumberField_int32 L JsonObject ''memory_count'')
                      (\<lambda>MemoryCount r. r\<lparr>DialogueResponse_MemoryCount := MemoryCount\<rparr>) R6;
               R8 = out_arg (TryGetArrayField JsonObject ''special_case_reasons'')
                      (\<lambda>ReasonsArray r.
                         r\<lparr>DialogueResponse_SpecialCaseReasons :=
                             AddReasons L ReasonsArray (DialogueResponse_SpecialCaseReasons r)\<rparr>)
                      R7
           in R8))"

text \<open>\<^verbatim>\<open>UAGLDialogueService::HandleDialogueResponse\<close>.\<close>

definition HandleDialogueResponse ::
  "FJsonLib \<Rightarrow> FHttpResponse option \<Rightarrow> bool \<Rightarrow> bool \<times> FAGLDialogueResponse" where
  "HandleDialogueResponse L Response bWasSuccessful =
     (if \<not> bWasSuccessful \<or> Response = None then (False, FAGLDialogueResponse_default)
      else if GetResponseCode (the Response) \<noteq> 200 then (False, FAGLDialogueResponse_default)
      else (True, Dialogue_DeserializeResponse L (GetContentAsString (the Response))))"

section \<open>Memory service (AGLMemoryService.cpp)\<close>



text \<open>
  \<^verbatim>\<open>UAGLMemoryService::DeserializeMemory\<close>. The argument is a shared pointer: \<open>None\<close> when
  \<^verbatim>\<open>JsonObject.IsValid()\<close> is false.
\<close>

definition AddContext :: "FJsonLib \<Rightarrow> FJsonObject \<Rightarrow> string TMap \<Rightarrow> string TMap" where
  "AddContext L ContextObject Context =
     fold (\<lambda>Pair ctx.
             case TryGetString L (snd Pair) of
               Some Value \<Rightarrow> TMap_Add (fst Pair) Value ctx
             | None \<Rightarrow> ctx)
       ContextObject Context"

definition DeserializeMemory :: "FJsonLib \<Rightarrow> FJsonObject option \<Rightarrow> FAGLMemory" where
  "DeserializeMemory L JsonObject =
     (let Memory = FAGLMemory_default in
      case JsonObject of
        None \<Rightarrow> Memory
      | Some obj \<Rightarrow>
          (let M1 = out_arg (TryGetStringField L obj ''id'') (\<lambda>v m. m\<lparr>Memory_Id := v\<rparr>) Memory;
               M2 = out_arg (TryGetStringField L obj ''playerId'')
                      (\<lambda>v m. m\<lparr>Memory_PlayerId := v\<rparr>) M1;
               M3 = out_arg (TryGetStringField L obj ''content'')
                      (\<lambda>v m. m\<lparr>Memory_Content := v\<rparr>) M2;
               M4 = out_arg (TryGetStringField L obj ''emotion'')
                      (\<lambda>v m. m\<lparr>Memory_Emotion := v\<rparr>) M3;
               M5 = out_arg (TryGetStringField L obj ''createdAt'')
                      (\<lambda>v m. m\<lparr>Memory_CreatedAt := v\<rparr>) M4;
               M6 = out_arg (TryGetNumberField_int32 L obj ''importance'')
                      (\<lambda>Importance m. m\<lparr>Memory_Importance := Importance\<rparr>) M5;
               M7 = out_arg (TryGetStringField L obj ''type'')
                      (\<lambda>TypeString m. m\<lparr>Memory_Type := Some (StringToMemoryType TypeString)\<rparr>)
                      M6;
               M8 = (case TryGetObjectField L obj ''context'' of
                       Some (Some ContextObject) \<Rightarrow>
                         M7\<lparr>Memory_Context := AddContext L ContextObject (Memory_Context M7)\<rparr>
                     | _ \<Rightarrow> M7)
           in M8))"

text \<open>\<^verbatim>\<open>UAGLMemoryService::DeserializeSearchResults\<close>; \<open>AddSearchResult\<close> is the loop body.\<close>

definition AddSearchResult ::
  "FJsonLib \<Rightarrow> FJsonValue \<Rightarrow> FAGLMemorySearchResult list \<Rightarrow> FAGLMemorySearchResult list" where
  "AddSearchResult L ResultValue Results =
     (case TryGetObject L ResultValue of
        Some (Some ResultObject) \<Rightarrow>
          (let SearchResult = FAGLMemorySearchResult_default;
               S1 = out_arg (TryGetNumberField_float L ResultObject ''similarityScore'')
                      (\<lambda>v s. s\<lparr>MemorySearchResult_SimilarityScore := v\<rparr>) SearchResult;
               S2 = out_arg (TryGetObjectField L ResultObject ''memory'')
                      (\<lambda>MemoryObject s.
                         s\<lparr>MemorySearchResult_Memory := DeserializeMemory L MemoryObject\<rparr>) S1
           in Results @ [S2])
      | _ \<Rightarrow> Results)"

definition DeserializeSearchResults :: "FJsonLib \<Rightarrow> string \<Rightarrow> FAGLMemorySearchResult list" where
  "DeserializeSearchResults L JsonString =
     (let Results = [] in
      case Deserialize L JsonString of
        None \<Rightarrow> Results
      | Some JsonObject \<Rightarrow>
          (case TryGetArrayField JsonObject ''results'' of
             Some ResultsArray \<Rightarrow> fold (AddSearchResult L) ResultsArray Results
           | None \<Rightarrow> Results))"

text \<open>\<^verbatim>\<open>UAGLMemoryService::DeserializeMemories\<close>; \<open>AddMemory\<close> is the loop body.\<close>

definition AddMemory :: "FJsonLib \<Rightarrow> FJsonValue \<Rightarrow> FAGLMemory list \<Rightarrow> FAGLMemory list" where
  "AddMemory L MemoryValue Memories =
     (case TryGetObject L MemoryValue of
        Some MemoryObject \<Rightarrow> Memories @ [DeserializeMemory L MemoryObject]
      | None \<Rightarrow> Memories)"

definition DeserializeMemories :: "FJsonLib \<Rightarrow> string \<Rightarrow> FAGLMemory list" where
  "DeserializeMemories L JsonString =
     (let Memories = [] in
      case Deserialize L JsonString of
        None \<Rightarrow> Memories
      | Some JsonObject \<Rightarrow>
          (case TryGetArrayField JsonObject ''memories'' of
             Some MemoriesArray \<Rightarrow> fold (AddMemory L) MemoriesArray Memories
           | None \<Rightarrow> Memories))"

text \<open>
  The three handlers of the memory service. \<^verbatim>\<open>HandleCreateMemoryResponse\<close> serves
  \<^verbatim>\<open>CreateMemory\<close>, \<^verbatim>\<open>HandleSearchMemoriesResponse\<close> serves \<^verbatim>\<open>SearchMemories\<close>, and
  \<^verbatim>\<open>HandleGetMemoriesResponse\<close> serves both \<^verbatim>\<open>GetContext\<close> and \<^verbatim>\<open>GetMemories\<close>.
  \<^verbatim>\<open>HandleCreateMemoryResponse\<close> parses the body itself.
\<close>

definition HandleCreateMemoryResponse ::
  "FJsonLib \<Rightarrow> FHttpResponse option \<Rightarrow> bool \<Rightarrow> bool \<times> FAGLMemory" where
  "HandleCreateMemoryResponse L Response bWasSuccessful =
     (if \<not> bWasSuccessful \<or> Response = None then (False, FAGLMemory_default)
      else if GetResponseCode (the Response) \<noteq> 200 \<and> GetResponseCode (the Response) \<noteq> 201
      then (False, FAGLMemory_default)
      else
        (case Deserialize L (GetContentAsString (the Response)) of
           None \<Rightarrow> (False, FAGLMemory_default)
         | Some JsonObject \<Rightarrow> (True, DeserializeMemory L (Some JsonObject))))"

definition HandleSearchMemoriesResponse ::
  "FJsonLib \<Rightarrow> FHttpResponse option \<Rightarrow> bool \<Rightarrow> bool \<times> FAGLMemorySearchResult list" where
  "HandleSearchMemoriesResponse L Response bWasSuccessful =
     (if \<not> bWasSuccessful \<or> Response = None then (False, [])
      else if GetResponseCode (the Response) \<noteq> 200 then (False, [])
      else (True, DeserializeSearchResults L (GetContentAsString (the Response))))"

definition HandleGetMemoriesResponse ::
  "FJsonLib \<Rightarrow> FHttpResponse option \<Rightarrow> bool \<Rightarrow> bool \<times> FAGLMemory list" where
  "HandleGetMemoriesResponse L Response bWasSuccessful =
     (if \<not> bWasSuccessful \<or> Response = None then (False, [])
      else if GetResponseCode (the Response) \<noteq> 200 then (False, [])
      else (True, DeserializeMemories L (GetContentAsString (the Response))))"

section \<open>Client facade (AGLClient.h, AGLClient.cpp)\<close>

text \<open>
  The members of \<^verbatim>\<open>UAGLClient\<close>. A service pointer is \<open>None\<close> when null. \<open>UAGLClient_new\<close>
  is the object before any call: \<^verbatim>\<open>bInitialized = false\<close> from the declaration, a default
  \<^verbatim>\<open>Config\<close>, empty strings and null service pointers.
\<close>

record UAGLClient =
  Client_Config :: FAGLConfig
  Client_PlayerId :: string
  Client_GameId :: string
  Client_EmotionService :: "UAGLService option"
  Client_DialogueService :: "UAGLService option"
  Client_MemoryService :: "UAGLService option"
  Client_bInitialized :: bool

definition UAGLClient_new :: UAGLClient where
  "UAGLClient_new =
     \<lparr>Client_Config = FAGLConfig_default,
      Client_PlayerId = '''',
      Client_GameId = '''',
      Client_EmotionService = None,
      Client_DialogueService = None,
      Client_MemoryService = None,
      Client_bInitialized = False\<rparr>"

text \<open>\<^verbatim>\<open>UAGLClient::Initialize\<close>: the assignment to \<^verbatim>\<open>Config\<close> comes before the check.\<close>

definition Client_Initialize :: "FAGLConfig \<Rightarrow> UAGLClient \<Rightarrow> UAGLClient" where
  "Client_Initialize InConfig C =
     (let C1 = C\<lparr>Client_Config := InConfig\<rparr> in
      if Config_ApiKey (Client_Config C1) = [] then C1
      else
        (let C2 = C1\<lparr>Client_EmotionService :=
                      Some (Emotion_Initialize (Config_EmotionServiceUrl (Client_Config C1))
                              (Config_ApiKey (Client_Config C1))
                              (Config_Timeout (Client_Config C1)))\<rparr>;
             C3 = C2\<lparr>Client_DialogueService :=
                      Some (Dialogue_Initialize (Config_DialogueServiceUrl (Client_Config C2))
                              (Config_ApiKey (Client_Config C2))
                              (Config_Timeout (Client_Config C2)))\<rparr>;
             C4 = C3\<lparr>Client_MemoryService :=
                      Some (Memory_Initialize (Config_MemoryServiceUrl (Client_Config C3))
                              (Config_ApiKey (Client_Config C3))
                              (Config_Timeout (Client_Config C3)))\<rparr>
         in C4\<lparr>Client_bInitialized := True\<rparr>))"

text \<open>The inline getters of \<^verbatim>\<open>AGLClient.h\<close>.\<close>

definition GetConfig :: "UAGLClient \<Rightarrow> FAGLConfig" where
  "GetConfig C = Client_Config C"

definition IsInitialized :: "UAGLClient \<Rightarrow> bool" where
  "IsInitialized C = Client_bInitialized C"

definition GetEmotionService :: "UAGLClient \<Rightarrow> UAGLService option" where
  "GetEmotionService C = Client_EmotionService C"

definition GetDialogueService :: "UAGLClient \<Rightarrow> UAGLService option" where
  "GetDialogueService C = Client_DialogueService C"

definition GetMemoryService :: "UAGLClient \<Rightarrow> UAGLService option" where
  "GetMemoryService C = Client_MemoryService C"


section \<open>Properties of the string comparison\<close>

lemma FString_eq_refl: "FString_eq a a"
  by (simp add: FString_eq_def)

lemma FString_eq_sym: "FString_eq a b \<longleftrightarrow> FString_eq b a"
  by (auto simp add: FString_eq_def)

lemma FString_eq_trans: "FString_eq a b \<Longrightarrow> FString_eq b c \<Longrightarrow> FString_eq a c"
  by (simp add: FString_eq_def)

text \<open>\<open>ToLower\<close> on the letters, the underscore and the full stop.\<close>

lemma ToLower_chars:
  "ToLower CHR ''a'' = CHR ''a''" "ToLower CHR ''b'' = CHR ''b''"
  "ToLower CHR ''c'' = CHR ''c''" "ToLower CHR ''d'' = CHR ''d''"
  "ToLower CHR ''e'' = CHR ''e''" "ToLower CHR ''f'' = CHR ''f''"
  "ToLower CHR ''g'' = CHR ''g''" "ToLower CHR ''h'' = CHR ''h''"
  "ToLower CHR ''i'' = CHR ''i''" "ToLower CHR ''j'' = CHR ''j''"
  "ToLower CHR ''k'' = CHR ''k''" "ToLower CHR ''l'' = CHR ''l''"
  "ToLower CHR ''m'' = CHR ''m''" "ToLower CHR ''n'' = CHR ''n''"
  "ToLower CHR ''o'' = CHR ''o''" "ToLower CHR ''p'' = CHR ''p''"
  "ToLower CHR ''q'' = CHR ''q''" "ToLower CHR ''r'' = CHR ''r''"
  "ToLower CHR ''s'' = CHR ''s''" "ToLower CHR ''t'' = CHR ''t''"
  "ToLower CHR ''u'' = CHR ''u''" "ToLower CHR ''v'' = CHR ''v''"
  "ToLower CHR ''w'' = CHR ''w''" "ToLower CHR ''x'' = CHR ''x''"
  "ToLower CHR ''y'' = CHR ''y''" "ToLower CHR ''z'' = CHR ''z''"
  "ToLower CHR ''_'' = CHR ''_''" "ToLower CHR ''.'' = CHR ''.''"
  "ToLower CHR ''A'' = CHR ''a''" "ToLower CHR ''B'' = CHR ''b''"
  "ToLower CHR ''C'' = CHR ''c''" "ToLower CHR ''D'' = CHR ''d''"
  "ToLower CHR ''E'' = CHR ''e''" "ToLower CHR ''F'' = CHR ''f''"
  "ToLower CHR ''G'' = CHR ''g''" "ToLower CHR ''H'' = CHR ''h''"
  "ToLower CHR ''I'' = CHR ''i''" "ToLower CHR ''J'' = CHR ''j''"
  "ToLower CHR ''K'' = CHR ''k''" "ToLower CHR ''L'' = CHR ''l''"
  "ToLower CHR ''M'' = CHR ''m''" "ToLower CHR ''N'' = CHR ''n''"
  "ToLower CHR ''O'' = CHR ''o''" "ToLower CHR ''P'' = CHR ''p''"
  "ToLower CHR ''Q'' = CHR ''q''" "ToLower CHR ''R'' = CHR ''r''"
  "ToLower CHR ''S'' = CHR ''s''" "ToLower CHR ''T'' = CHR ''t''"
  "ToLower CHR ''U'' = CHR ''u''" "ToLower CHR ''V'' = CHR ''v''"
  "ToLower CHR ''W'' = CHR ''w''" "ToLower CHR ''X'' = CHR ''x''"
  "ToLower CHR ''Y'' = CHR ''y''" "ToLower CHR ''Z'' = CHR ''z''"
  by (simp_all add: ToLower_def)

lemma ToLower_idem: "ToLower (ToLower c) = ToLower c"
  by (simp add: ToLower_def)

lemma FString_eq_lower: "FString_eq (map ToLower a) b \<longleftrightarrow> FString_eq a b"
  by (simp add: FString_eq_def ToLower_idem comp_def)

section \<open>Properties of the enum wire tables\<close>

lemma StringToEmotionType_inverse:
  "StringToEmotionType (EmotionTypeToString e) = e"
  by (cases e) (simp_all add: StringToEmotionType_def FString_eq_def ToLower_chars)

lemma StringToMemoryType_inverse:
  "StringToMemoryType (MemoryTypeToString t) = t"
  by (cases t) (simp_all add: StringToMemoryType_def FString_eq_def ToLower_chars)

lemma StringToEmotionType_lower: "StringToEmotionType (map ToLower s) = StringToEmotionType s"
  by (simp add: StringToEmotionType_def FString_eq_lower)

lemma StringToMemoryType_lower: "StringToMemoryType (map ToLower s) = StringToMemoryType s"
  by (simp add: StringToMemoryType_def FString_eq_lower)

lemma StringToEmotionType_cases:
  "StringToEmotionType s = Neutral
   \<or> EmotionTypeToString (StringToEmotionType s) = map ToLower s"
  by (simp add: StringToEmotionType_def FString_eq_def ToLower_chars)

lemma StringToMemoryType_cases:
  "StringToMemoryType s = MemoryType_Event
   \<or> MemoryTypeToString (StringToMemoryType s) = map ToLower s"
  by (simp add: StringToMemoryType_def FString_eq_def ToLower_chars)

lemma not_emotion_wire: "s \<in> {''HAPPY'', ''bogus'', ''first_time''} \<Longrightarrow> s \<notin> range EmotionTypeToString"
proof
  assume s: "s \<in> {''HAPPY'', ''bogus'', ''first_time''}" and "s \<in> range EmotionTypeToString"
  then obtain e where "s = EmotionTypeToString e" by blast
  with s show False by (cases e) auto
qed

lemma not_memory_wire: "s \<in> {''FIRST_TIME'', ''bogus'', ''happy''} \<Longrightarrow> s \<notin> range MemoryTypeToString"
proof
  assume s: "s \<in> {''FIRST_TIME'', ''bogus'', ''happy''}" and "s \<in> range MemoryTypeToString"
  then obtain t where "s = MemoryTypeToString t" by blast
  with s show False by (cases t) auto
qed

text \<open>
  Claim C3, as stated, at the strings \<^verbatim>\<open>HAPPY\<close> and \<^verbatim>\<open>FIRST_TIME\<close>: neither is in the wire
  table of its enum, and they decode to \<^verbatim>\<open>Happy\<close> and \<^verbatim>\<open>FirstTime\<close>, not to the defaults
  \<^verbatim>\<open>Neutral\<close> and \<^verbatim>\<open>Event\<close>.
\<close>

theorem decode_uppercase_not_default:
  "''HAPPY'' \<notin> range EmotionTypeToString
   \<and> StringToEmotionType ''HAPPY'' = Happy
   \<and> ''FIRST_TIME'' \<notin> range MemoryTypeToString
   \<and> StringToMemoryType ''FIRST_TIME'' = MemoryType_FirstTime"
  by (simp add: not_emotion_wire not_memory_wire StringToEmotionType_def StringToMemoryType_def
      FString_eq_def ToLower_chars)

text \<open>
  Claim C3, amended. Decoding the wire string of an \<^verbatim>\<open>EAGLEmotionType\<close> or
  \<^verbatim>\<open>EAGLMemoryType\<close> value gives the value back. The decoders compare without regard to
  the case of ASCII letters: a string that is a wire string once its letters are lowered
  decodes to the value of that wire string, and every other string decodes to
  \<^verbatim>\<open>Neutral\<close>, respectively \<^verbatim>\<open>Event\<close>.
\<close>

theorem enum_roundtrip_ignoring_case:
  "StringToEmotionType (EmotionTypeToString e) = e
   \<and> StringToMemoryType (MemoryTypeToString t) = t
   \<and> (map ToLower s = EmotionTypeToString e \<longrightarrow> StringToEmotionType s = e)
   \<and> (map ToLower s = MemoryTypeToString t \<longrightarrow> StringToMemoryType s = t)
   \<and> (map ToLower s \<notin> range EmotionTypeToString \<longrightarrow> StringToEmotionType s = Neutral)
   \<and> (map ToLower s \<notin> range MemoryTypeToString \<longrightarrow> StringToMemoryType s = MemoryType_Event)"
proof -
  have emo_pos: "map ToLower s = EmotionTypeToString e \<longrightarrow> StringToEmotionType s = e"
    using StringToEmotionType_lower [of s] by (auto simp add: StringToEmotionType_inverse)
  have mem_pos: "map ToLower s = MemoryTypeToString t \<longrightarrow> StringToMemoryType s = t"
    using StringToMemoryType_lower [of s] by (auto simp add: StringToMemoryType_inverse)
  have emo: "map ToLower s \<notin> range EmotionTypeToString \<longrightarrow> StringToEmotionType s = Neutral"
    using StringToEmotionType_cases [of s] by (metis rangeI)
  have mem: "map ToLower s \<notin> range MemoryTypeToString \<longrightarrow> StringToMemoryType s = MemoryType_Event"
    using StringToMemoryType_cases [of s] by (metis rangeI)
  show ?thesis
    using emo_pos mem_pos emo mem
    by (simp add: StringToEmotionType_inverse StringToMemoryType_inverse)
qed

theorem enum_roundtrip_ignoring_case_witness:
  "map ToLower ''HAPPY'' = EmotionTypeToString Happy
   \<and> map ToLower ''HAPPY'' \<notin> range MemoryTypeToString
   \<and> map ToLower ''First_Time'' = MemoryTypeToString MemoryType_FirstTime
   \<and> map ToLower ''First_Time'' \<notin> range EmotionTypeToString
   \<and> StringToEmotionType ''HAPPY'' = Happy
   \<and> StringToMemoryType ''HAPPY'' = MemoryType_Event
   \<and> StringToMemoryType ''First_Time'' = MemoryType_FirstTime
   \<and> StringToEmotionType ''First_Time'' = Neutral
   \<and> StringToEmotionType (EmotionTypeToString Worried) = Worried
   \<and> StringToMemoryType (MemoryTypeToString MemoryType_Observation) = MemoryType_Observation"
proof -
  have l1: "map ToLower ''HAPPY'' = ''happy''" and l2: "map ToLower ''First_Time'' = ''first_time''"
    by (simp_all add: ToLower_chars)
  have h1: "map ToLower ''HAPPY'' = EmotionTypeToString Happy" using l1 by simp
  have h2: "map ToLower ''HAPPY'' \<notin> range MemoryTypeToString"
    using l1 not_memory_wire [of "''happy''"] by simp
  have h3: "map ToLower ''First_Time'' = MemoryTypeToString MemoryType_FirstTime" using l2 by simp
  have h4: "map ToLower ''First_Time'' \<notin> range EmotionTypeToString"
    using l2 not_emotion_wire [of "''first_time''"] by simp
  from enum_roundtrip_ignoring_case [of Happy MemoryType_Observation "''HAPPY''"]
    enum_roundtrip_ignoring_case [of Worried MemoryType_FirstTime "''First_Time''"]
    h1 h2 h3 h4
  show ?thesis by blast
qed

section \<open>Reading a field of an encoded object\<close>

lemma TMap_Find_Add:
  "TMap_Find (TMap_Add k v m) k' = (if FString_eq k k' then Some v else TMap_Find m k')"
  by (induction m) (auto simp add: FString_eq_def)

lemma TryGetField_SetStringField:
  "TryGetField (SetStringField k s obj) k' =
     (if FString_eq k k' then Some (JString s) else TryGetField obj k')"
  by (simp add: TryGetField_def SetStringField_def TMap_Find_Add)

lemma TryGetField_SetBoolField:
  "TryGetField (SetBoolField k b obj) k' =
     (if FString_eq k k' then Some (JBool b) else TryGetField obj k')"
  by (simp add: TryGetField_def SetBoolField_def TMap_Find_Add)

lemma TryGetField_SetNumberField:
  "TryGetField (SetNumberField k x obj) k' =
     (if FString_eq k k' then Some (JNumber x) else TryGetField obj k')"
  by (simp add: TryGetField_def SetNumberField_def TMap_Find_Add)

lemma TryGetField_SetObjectField:
  "TryGetField (SetObjectField k j obj) k' =
     (if FString_eq k k' then Some (JObject j) else TryGetField obj k')"
  by (simp add: TryGetField_def SetObjectField_def TMap_Find_Add)

lemma TryGetField_empty: "TryGetField [] k = None"
  by (simp add: TryGetField_def)

lemmas TryGetField_Set =
  TryGetField_SetStringField TryGetField_SetBoolField TryGetField_SetNumberField
  TryGetField_SetObjectField TryGetField_empty

section \<open>Response interpretation\<close>

text \<open>
  Claim C1, as stated, at \<^verbatim>\<open>CreateMemory\<close>: the transport succeeds, the status is 200 and
  the body is not JSON, and the handler is invoked with \<^verbatim>\<open>false\<close>, not \<^verbatim>\<open>true\<close>.
\<close>

theorem create_memory_parse_failure_reports_false:
  "Deserialize
     \<lparr>Deserialize = (\<lambda>s. if s = ''{}'' then Some [] else None), NumberToString = (\<lambda>x. []),
           TryGetNumber_float = (\<lambda>v. None), TryGetNumber_int32 = (\<lambda>v. None),
           TryGetBool = (\<lambda>v. None), TryGetObject = (\<lambda>v. None)\<rparr>
     ''not json'' = None
   \<and> HandleCreateMemoryResponse
        \<lparr>Deserialize = (\<lambda>s. if s = ''{}'' then Some [] else None), NumberToString = (\<lambda>x. []),
           TryGetNumber_float = (\<lambda>v. None), TryGetNumber_int32 = (\<lambda>v. None),
           TryGetBool = (\<lambda>v. None), TryGetObject = (\<lambda>v. None)\<rparr>
        (Some \<lparr>GetResponseCode = 200, GetContentAsString = ''not json''\<rparr>) True
      = (False, FAGLMemory_default)"
  by (simp add: HandleCreateMemoryResponse_def)

text \<open>
  Claim C1, amended. When the transport succeeds and the body fails top-level parsing:
  with status 200 the handlers of \<^verbatim>\<open>AnalyzeEmotion\<close>, \<^verbatim>\<open>GenerateDialogue\<close>,
  \<^verbatim>\<open>SearchMemories\<close>, \<^verbatim>\<open>GetContext\<close> and \<^verbatim>\<open>GetMemories\<close> are invoked with \<^verbatim>\<open>true\<close> and
  a default response or an empty list; with status 200 or 201 the handler of
  \<^verbatim>\<open>CreateMemory\<close> is invoked with \<^verbatim>\<open>false\<close> and a default memory.
\<close>

theorem parse_failure_outcomes:
  assumes "Deserialize L (GetContentAsString R) = None"
  shows "(GetResponseCode R = 200 \<longrightarrow>
            HandleEmotionResponse L (Some R) True = (True, FAGLEmotionResponse_default)
            \<and> HandleDialogueResponse L (Some R) True = (True, FAGLDialogueResponse_default)
            \<and> HandleSearchMemoriesResponse L (Some R) True = (True, [])
            \<and> HandleGetMemoriesResponse L (Some R) True = (True, []))
         \<and> (GetResponseCode R = 200 \<or> GetResponseCode R = 201 \<longrightarrow>
            HandleCreateMemoryResponse L (Some R) True = (False, FAGLMemory_default))"
  using assms
  by (auto simp add: HandleEmotionResponse_def HandleDialogueResponse_def
      HandleSearchMemoriesResponse_def HandleGetMemoriesResponse_def
      HandleCreateMemoryResponse_def Emotion_DeserializeResponse_def
      Dialogue_DeserializeResponse_def DeserializeSearchResults_def DeserializeMemories_def)

theorem parse_failure_outcomes_witness:
  "Deserialize
     \<lparr>Deserialize = (\<lambda>s. if s = ''{}'' then Some [] else None), NumberToString = (\<lambda>x. []),
           TryGetNumber_float = (\<lambda>v. None), TryGetNumber_int32 = (\<lambda>v. None),
           TryGetBool = (\<lambda>v. None), TryGetObject = (\<lambda>v. None)\<rparr>
     ''not json'' = None
   \<and> HandleEmotionResponse
        \<lparr>Deserialize = (\<lambda>s. if s = ''{}'' then Some [] else None), NumberToString = (\<lambda>x. []),
           TryGetNumber_float = (\<lambda>v. None), TryGetNumber_int32 = (\<lambda>v. None),
           TryGetBool = (\<lambda>v. None), TryGetObject = (\<lambda>v. None)\<rparr>
        (Some \<lparr>GetResponseCode = 200, GetContentAsString = ''not json''\<rparr>) True
      = (True, FAGLEmotionResponse_default)
   \<and> HandleGetMemoriesResponse
        \<lparr>Deserialize = (\<lambda>s. if s = ''{}'' then Some [] else None), NumberToString = (\<lambda>x. []),
           TryGetNumber_float = (\<lambda>v. None), TryGetNumber_int32 = (\<lambda>v. None),
           TryGetBool = (\<lambda>v. None), TryGetObject = (\<lambda>v. None)\<rparr>
        (Some \<lparr>GetResponseCode = 200, GetContentAsString = ''not json''\<rparr>) True
      = (True, [])
   \<and> HandleCreateMemoryResponse
        \<lparr>Deserialize = (\<lambda>s. if s = ''{}'' then Some [] else None), NumberToString = (\<lambda>x. []),
           TryGetNumber_float = (\<lambda>v. None), TryGetNumber_int32 = (\<lambda>v. None),
           TryGetBool = (\<lambda>v. None), TryGetObject = (\<lambda>v. None)\<rparr>
        (Some \<lparr>GetResponseCode = 200, GetContentAsString = ''not json''\<rparr>) True
      = (False, FAGLMemory_default)"
proof -
  have unparsed:
    "Deserialize
       \<lparr>Deserialize = (\<lambda>s. if s = ''{}'' then Some [] else None), NumberToString = (\<lambda>x. []),
           TryGetNumber_float = (\<lambda>v. None), TryGetNumber_int32 = (\<lambda>v. None),
           TryGetBool = (\<lambda>v. None), TryGetObject = (\<lambda>v. None)\<rparr>
       (GetContentAsString \<lparr>GetResponseCode = 200, GetContentAsString = ''not json''\<rparr>) = None"
    by simp
  from parse_failure_outcomes [OF unparsed] unparsed show ?thesis by simp
qed

text \<open>
  Claim C4. If the transport reports failure, or the response pointer is null, or the
  status code is not 200, the handlers of \<^verbatim>\<open>AnalyzeEmotion\<close>, \<^verbatim>\<open>GenerateDialogue\<close>,
  \<^verbatim>\<open>SearchMemories\<close>, \<^verbatim>\<open>GetContext\<close> and \<^verbatim>\<open>GetMemories\<close> are invoked with \<^verbatim>\<open>false\<close> and
  a default response or an empty list; the handler of \<^verbatim>\<open>CreateMemory\<close> likewise, with 201
  accepted beside 200: a 201 response whose body parses is reported with \<^verbatim>\<open>true\<close>. Neither
  the body nor the JSON library enters a failure result.
\<close>

theorem failure_paths:
  "(\<not> bWasSuccessful \<or> Response = None
      \<or> (\<exists>R. Response = Some R \<and> GetResponseCode R \<noteq> 200) \<longrightarrow>
      HandleEmotionResponse L Response bWasSuccessful = (False, FAGLEmotionResponse_default)
      \<and> HandleDialogueResponse L Response bWasSuccessful = (False, FAGLDialogueResponse_default)
      \<and> HandleSearchMemoriesResponse L Response bWasSuccessful = (False, [])
      \<and> HandleGetMemoriesResponse L Response bWasSuccessful = (False, []))
   \<and> (\<not> bWasSuccessful \<or> Response = None
      \<or> (\<exists>R. Response = Some R \<and> GetResponseCode R \<noteq> 200 \<and> GetResponseCode R \<noteq> 201) \<longrightarrow>
      HandleCreateMemoryResponse L Response bWasSuccessful = (False, FAGLMemory_default))
   \<and> (GetResponseCode R' = 201 \<and> Deserialize L (GetContentAsString R') = Some obj \<longrightarrow>
      HandleCreateMemoryResponse L (Some R') True = (True, DeserializeMemory L (Some obj)))"
  by (auto simp add: HandleEmotionResponse_def HandleDialogueResponse_def
      HandleSearchMemoriesResponse_def HandleGetMemoriesResponse_def
      HandleCreateMemoryResponse_def)

theorem failure_paths_witness:
  "(\<exists>R. Some \<lparr>GetResponseCode = 500, GetContentAsString = ''{}''\<rparr> = Some R
        \<and> GetResponseCode R \<noteq> 200 \<and> GetResponseCode R \<noteq> 201)
   \<and> HandleEmotionResponse
        \<lparr>Deserialize = (\<lambda>s. if s = ''{}'' then Some [] else None), NumberToString = (\<lambda>x. []),
           TryGetNumber_float = (\<lambda>v. None), TryGetNumber_int32 = (\<lambda>v. None),
           TryGetBool = (\<lambda>v. None), TryGetObject = (\<lambda>v. None)\<rparr>
        (Some \<lparr>GetResponseCode = 500, GetContentAsString = ''{}''\<rparr>) True
      = (False, FAGLEmotionResponse_default)
   \<and> HandleDialogueResponse
        \<lparr>Deserialize = (\<lambda>s. if s = ''{}'' then Some [] else None), NumberToString = (\<lambda>x. []),
           TryGetNumber_float = (\<lambda>v. None), TryGetNumber_int32 = (\<lambda>v. None),
           TryGetBool = (\<lambda>v. None), TryGetObject = (\<lambda>v. None)\<rparr>
        (Some \<lparr>GetResponseCode = 500, GetContentAsString = ''{}''\<rparr>) True
      = (False, FAGLDialogueResponse_default)
   \<and> HandleSearchMemoriesResponse
        \<lparr>Deserialize = (\<lambda>s. if s = ''{}'' then Some [] else None), NumberToString = (\<lambda>x. []),
           TryGetNumber_float = (\<lambda>v. None), TryGetNumber_int32 = (\<lambda>v. None),
           TryGetBool = (\<lambda>v. None), TryGetObject = (\<lambda>v. None)\<rparr>
        (Some \<lparr>GetResponseCode = 500, GetContentAsString = ''{}''\<rparr>) True
      = (False, [])
   \<and> HandleGetMemoriesResponse
        \<lparr>Deserialize = (\<lambda>s. if s = ''{}'' then Some [] else None), NumberToString = (\<lambda>x. []),
           TryGetNumber_float = (\<lambda>v. None), TryGetNumber_int32 = (\<lambda>v. None),
           TryGetBool = (\<lambda>v. None), TryGetObject = (\<lambda>v. None)\<rparr>
        (Some \<lparr>GetResponseCode = 500, GetContentAsString = ''{}''\<rparr>) True
      = (False, [])
   \<and> HandleCreateMemoryResponse
        \<lparr>Deserialize = (\<lambda>s. if s = ''{}'' then Some [] else None), NumberToString = (\<lambda>x. []),
           TryGetNumber_float = (\<lambda>v. None), TryGetNumber_int32 = (\<lambda>v. None),
           TryGetBool = (\<lambda>v. None), TryGetObject = (\<lambda>v. None)\<rparr>
        (Some \<lparr>GetResponseCode = 500, GetContentAsString = ''{}''\<rparr>) True
      = (False, FAGLMemory_default)
   \<and> HandleCreateMemoryResponse
        \<lparr>Deserialize = (\<lambda>s. if s = ''{}'' then Some [] else None), NumberToString = (\<lambda>x. []),
           TryGetNumber_float = (\<lambda>v. None), TryGetNumber_int32 = (\<lambda>v. None),
           TryGetBool = (\<lambda>v. None), TryGetObject = (\<lambda>v. None)\<rparr>
        (Some \<lparr>GetResponseCode = 201, GetContentAsString = ''{}''\<rparr>) True
      = (True, FAGLMemory_default)"
proof -
  let ?L = "\<lparr>Deserialize = (\<lambda>s. if s = ''{}'' then Some [] else None), NumberToString = (\<lambda>x. []),
           TryGetNumber_float = (\<lambda>v. None), TryGetNumber_int32 = (\<lambda>v. None),
           TryGetBool = (\<lambda>v. None), TryGetObject = (\<lambda>v. None)\<rparr>"
  have status:
    "\<exists>R. Some \<lparr>GetResponseCode = 500, GetContentAsString = ''{}''\<rparr> = Some R
        \<and> GetResponseCode R \<noteq> 200 \<and> GetResponseCode R \<noteq> 201"
    by simp
  have created:
    "GetResponseCode \<lparr>GetResponseCode = 201, GetContentAsString = ''{}''\<rparr> = 201
     \<and> Deserialize ?L
          (GetContentAsString \<lparr>GetResponseCode = 201, GetContentAsString = ''{}''\<rparr>) = Some []"
    by simp
  have empty_object: "DeserializeMemory ?L (Some []) = FAGLMemory_default"
    by (simp add: DeserializeMemory_def Let_def out_arg_def TryGetStringField_def
        TryGetNumberField_int32_def TryGetObjectField_def TryGetField_def)
  from failure_paths [of True "Some \<lparr>GetResponseCode = 500, GetContentAsString = ''{}''\<rparr>"
      ?L "\<lparr>GetResponseCode = 201, GetContentAsString = ''{}''\<rparr>" "[]"]
    status created empty_object
  show ?thesis by metis
qed

section \<open>Decoding the dialogue response\<close>

lemma AddReasons_filter:
  "AddReasons L arr acc =
     acc @ map (the \<circ> TryGetString L) (filter (\<lambda>v. TryGetString L v \<noteq> None) arr)"
  unfolding AddReasons_def
  by (induction arr arbitrary: acc) (auto split: option.split)

lemma SpecialCaseReasons_DeserializeResponse:
  "DialogueResponse_SpecialCaseReasons (Dialogue_DeserializeResponse L body) =
     (case Deserialize L body of
        None \<Rightarrow> []
      | Some obj \<Rightarrow>
          (case TryGetArrayField obj ''special_case_reasons'' of
             None \<Rightarrow> []
           | Some arr \<Rightarrow>
               map (the \<circ> TryGetString L) (filter (\<lambda>v. TryGetString L v \<noteq> None) arr)))"
  by (simp add: Dialogue_DeserializeResponse_def FAGLDialogueResponse_default_def Let_def
      out_arg_def AddReasons_filter split: option.split)

lemma TryGetString_succeeds:
  "TryGetString L x \<noteq> None \<longleftrightarrow>
     (\<exists>s. x = JString s) \<or> (\<exists>n. x = JNumber n) \<or> (\<exists>b. x = JBool b)"
  by (cases x) simp_all

text \<open>
  Claim C5, as stated, at a body whose \<^verbatim>\<open>special_case_reasons\<close> array holds a number and
  a boolean between two strings: the two elements that are no strings are not skipped,
  their texts are in the list.
\<close>

theorem number_and_boolean_reasons_kept:
  \<open>DialogueResponse_SpecialCaseReasons
     (Dialogue_DeserializeResponse
        \<lparr>Deserialize = (\<lambda>s. if s = ''{"special_case_reasons":["win_streak",5,true,"legendary"]}''
                    then Some [(''special_case_reasons'',
                         JArray [JString ''win_streak'', JNumber 5, JBool True,
                                 JString ''legendary''])]
                    else None),
           NumberToString = (\<lambda>x. FromInt \<lfloor>x\<rfloor>),
           TryGetNumber_float = (\<lambda>v. None), TryGetNumber_int32 = (\<lambda>v. None),
           TryGetBool = (\<lambda>v. None), TryGetObject = (\<lambda>v. None)\<rparr>
        ''{"special_case_reasons":["win_streak",5,true,"legendary"]}'')
   = [''win_streak'', ''5'', ''true'', ''legendary'']\<close>
  by (simp add: SpecialCaseReasons_DeserializeResponse TryGetArrayField_def TryGetField_def
      FString_eq_def FromInt_def nat_to_decimal.simps)

text \<open>
  Claim C5, amended. For a body that parses to an object: when \<^verbatim>\<open>special_case_reasons\<close>
  is an array, \<^verbatim>\<open>SpecialCaseReasons\<close> holds, in the order of the array, one entry for each
  element that is a string, a number or a boolean (a string as it is, a number or a
  boolean as its text), and null, array and object elements are passed over without
  ending the loop; when the key is absent or its value is no array,
  \<^verbatim>\<open>SpecialCaseReasons\<close> is empty.
\<close>

theorem special_case_reasons_decoding:
  assumes "Deserialize L body = Some obj"
  shows "(TryGetField obj ''special_case_reasons'' = Some (JArray arr) \<longrightarrow>
            DialogueResponse_SpecialCaseReasons (Dialogue_DeserializeResponse L body)
              = map (the \<circ> TryGetString L) (filter (\<lambda>x. TryGetString L x \<noteq> None) arr))
         \<and> (TryGetField obj ''special_case_reasons'' = None
             \<or> (TryGetField obj ''special_case_reasons'' = Some v \<and> TryGetArray v = None) \<longrightarrow>
            DialogueResponse_SpecialCaseReasons (Dialogue_DeserializeResponse L body) = [])
         \<and> (TryGetString L x \<noteq> None \<longleftrightarrow>
              (\<exists>s. x = JString s) \<or> (\<exists>n. x = JNumber n) \<or> (\<exists>b. x = JBool b))
         \<and> TryGetString L (JString s) = Some s
         \<and> TryGetString L (JNumber n) = Some (NumberToString L n)
         \<and> TryGetString L (JBool b) = Some (if b then ''true'' else ''false'')
         \<and> (TryGetArray v = None \<longleftrightarrow> (\<forall>xs. v \<noteq> JArray xs))"
proof -
  have is_array:
    "TryGetField obj ''special_case_reasons'' = Some (JArray arr) \<longrightarrow>
       DialogueResponse_SpecialCaseReasons (Dialogue_DeserializeResponse L body)
         = map (the \<circ> TryGetString L) (filter (\<lambda>x. TryGetString L x \<noteq> None) arr)"
    using assms by (simp add: SpecialCaseReasons_DeserializeResponse TryGetArrayField_def)
  have no_array:
    "TryGetField obj ''special_case_reasons'' = None
     \<or> (TryGetField obj ''special_case_reasons'' = Some v \<and> TryGetArray v = None) \<longrightarrow>
       DialogueResponse_SpecialCaseReasons (Dialogue_DeserializeResponse L body) = []"
    using assms by (auto simp add: SpecialCaseReasons_DeserializeResponse TryGetArrayField_def)
  have arr: "TryGetArray v = None \<longleftrightarrow> (\<forall>xs. v \<noteq> JArray xs)"
    by (cases v) simp_all
  from is_array no_array arr TryGetString_succeeds [of L x] show ?thesis
    by simp
qed

theorem special_case_reasons_decoding_witness:
  \<open>DialogueResponse_SpecialCaseReasons
     (Dialogue_DeserializeResponse
        \<lparr>Deserialize = (\<lambda>s. if s = ''{"special_case_reasons":["win_streak",null,[],"legendary"]}''
                    then Some [(''special_case_reasons'',
                         JArray [JString ''win_streak'', JNull, JArray [], JString ''legendary''])]
                    else None),
           NumberToString = (\<lambda>x. FromInt \<lfloor>x\<rfloor>),
           TryGetNumber_float = (\<lambda>v. None), TryGetNumber_int32 = (\<lambda>v. None),
           TryGetBool = (\<lambda>v. None), TryGetObject = (\<lambda>v. None)\<rparr>
        ''{"special_case_reasons":["win_streak",null,[],"legendary"]}'')
     = [''win_streak'', ''legendary'']
   \<and> DialogueResponse_SpecialCaseReasons
       (Dialogue_DeserializeResponse
          \<lparr>Deserialize = (\<lambda>s. if s = ''{"special_case_reasons":"win_streak"}''
                    then Some [(''special_case_reasons'', JString ''win_streak'')]
                    else None),
           NumberToString = (\<lambda>x. FromInt \<lfloor>x\<rfloor>),
           TryGetNumber_float = (\<lambda>v. None), TryGetNumber_int32 = (\<lambda>v. None),
           TryGetBool = (\<lambda>v. None), TryGetObject = (\<lambda>v. None)\<rparr>
          ''{"special_case_reasons":"win_streak"}'')
     = []
   \<and> DialogueResponse_SpecialCaseReasons
       (Dialogue_DeserializeResponse
          \<lparr>Deserialize = (\<lambda>s. if s = ''{"dialogue":"Hi"}''
                    then Some [(''dialogue'', JString ''Hi'')]
                    else None),
           NumberToString = (\<lambda>x. FromInt \<lfloor>x\<rfloor>),
           TryGetNumber_float = (\<lambda>v. None), TryGetNumber_int32 = (\<lambda>v. None),
           TryGetBool = (\<lambda>v. None), TryGetObject = (\<lambda>v. None)\<rparr>
          ''{"dialogue":"Hi"}'')
     = []\<close>
proof -
  let ?LB = \<open>\<lparr>Deserialize = (\<lambda>s. if s = ''{"special_case_reasons":["win_streak",null,[],"legendary"]}''
                    then Some [(''special_case_reasons'',
                         JArray [JString ''win_streak'', JNull, JArray [], JString ''legendary''])]
                    else None),
           NumberToString = (\<lambda>x. FromInt \<lfloor>x\<rfloor>),
           TryGetNumber_float = (\<lambda>v. None), TryGetNumber_int32 = (\<lambda>v. None),
           TryGetBool = (\<lambda>v. None), TryGetObject = (\<lambda>v. None)\<rparr>\<close>
  let ?LC = \<open>\<lparr>Deserialize = (\<lambda>s. if s = ''{"special_case_reasons":"win_streak"}''
                    then Some [(''special_case_reasons'', JString ''win_streak'')]
                    else None),
           NumberToString = (\<lambda>x. FromInt \<lfloor>x\<rfloor>),
           TryGetNumber_float = (\<lambda>v. None), TryGetNumber_int32 = (\<lambda>v. None),
           TryGetBool = (\<lambda>v. None), TryGetObject = (\<lambda>v. None)\<rparr>\<close>
  let ?LD = \<open>\<lparr>Deserialize = (\<lambda>s. if s = ''{"dialogue":"Hi"}''
                    then Some [(''dialogue'', JString ''Hi'')]
                    else None),
           NumberToString = (\<lambda>x. FromInt \<lfloor>x\<rfloor>),
           TryGetNumber_float = (\<lambda>v. None), TryGetNumber_int32 = (\<lambda>v. None),
           TryGetBool = (\<lambda>v. None), TryGetObject = (\<lambda>v. None)\<rparr>\<close>
  have pB: \<open>Deserialize ?LB ''{"special_case_reasons":["win_streak",null,[],"legendary"]}''
             = Some [(''special_case_reasons'',
                         JArray [JString ''win_streak'', JNull, JArray [], JString ''legendary''])]\<close>
    by simp
  have pC: \<open>Deserialize ?LC ''{"special_case_reasons":"win_streak"}'' = Some [(''special_case_reasons'', JString ''win_streak'')]\<close>
    by simp
  have pD: \<open>Deserialize ?LD ''{"dialogue":"Hi"}'' = Some [(''dialogue'', JString ''Hi'')]\<close>
    by simp
  have rB: \<open>DialogueResponse_SpecialCaseReasons
              (Dialogue_DeserializeResponse ?LB ''{"special_case_reasons":["win_streak",null,[],"legendary"]}'')
            = [''win_streak'', ''legendary'']\<close>
    using special_case_reasons_decoding [OF pB,
        of "[JString ''win_streak'', JNull, JArray [], JString ''legendary'']"]
    by (simp add: TryGetField_def FString_eq_def)
  have rC: \<open>DialogueResponse_SpecialCaseReasons
              (Dialogue_DeserializeResponse ?LC ''{"special_case_reasons":"win_streak"}'') = []\<close>
    using special_case_reasons_decoding [OF pC, of _ "JString ''win_streak''"]
    by (simp add: TryGetField_def FString_eq_def)
  have rD: \<open>DialogueResponse_SpecialCaseReasons
              (Dialogue_DeserializeResponse ?LD ''{"dialogue":"Hi"}'') = []\<close>
    using special_case_reasons_decoding [OF pD]
    by (simp add: TryGetField_def FString_eq_def ToLower_chars)
  from rB rC rD show ?thesis by simp
qed

section \<open>Encoding requests\<close>

text \<open>
  The object each encoder hands to the writer, field by field in the order of the
  \<^verbatim>\<open>Set...Field\<close> calls, and with it the payload each encoder returns.
\<close>

lemma Emotion_SerializeRequest_Object_fields:
  "Emotion_SerializeRequest_Object Request =
     [(''type'', JString (Emotion_EventTypeToString (EmotionRequest_EventType Request))),
      (''force_ml'', JBool (EmotionRequest_bForceML Request)),
      (''data'', JObject (SetStringFields (EmotionRequest_Data Request) []))]
     @ (if EmotionRequest_Context Request = [] then []
        else [(''context'', JObject (SetStringFields (EmotionRequest_Context Request) []))])"
  by (simp add: Emotion_SerializeRequest_Object_def Let_def SetStringField_def SetBoolField_def
      SetObjectField_def FString_eq_def ToLower_chars)

lemma Dialogue_SerializeRequest_Object_fields:
  "Dialogue_SerializeRequest_Object Request =
     [(''event_type'', JString (Dialogue_EventTypeToString (DialogueRequest_EventType Request))),
      (''emotion'', JString (EmotionTypeToString (DialogueRequest_Emotion Request))),
      (''persona'', JString (PersonaToString (DialogueRequest_Persona Request))),
      (''force_llm'', JBool (DialogueRequest_bForceLLM Request))]
     @ (if DialogueRequest_PlayerId Request = [] then []
        else [(''player_id'', JString (DialogueRequest_PlayerId Request))])
     @ (if DialogueRequest_Language Request = [] then []
        else [(''language'', JString (DialogueRequest_Language Request))])
     @ (if DialogueRequest_Context Request = [] then []
        else [(''context'', JObject (SetStringFields (DialogueRequest_Context Request) []))])"
  by (simp add: Dialogue_SerializeRequest_Object_def Let_def SetStringField_def SetBoolField_def
      SetObjectField_def FString_eq_def ToLower_chars)




text \<open>
  Claim C6. For every writer, the payload of a \<^verbatim>\<open>FAGLDialogueRequest\<close> is the writer's
  text of an object that has no key \<^verbatim>\<open>player_id\<close> when \<^verbatim>\<open>PlayerId\<close> is empty, and has the
  key \<^verbatim>\<open>player_id\<close> with the string \<^verbatim>\<open>PlayerId\<close> as its value when \<^verbatim>\<open>PlayerId\<close> is not
  empty.
\<close>

theorem dialogue_player_id_emission:
  "\<exists>obj. Dialogue_SerializeRequest write r = write obj
         \<and> obj = Dialogue_SerializeRequest_Object r
         \<and> TryGetField obj ''player_id''
             = (if DialogueRequest_PlayerId r = [] then None
                else Some (JString (DialogueRequest_PlayerId r)))
         \<and> (''player_id'' \<in> fst ` set obj) = (DialogueRequest_PlayerId r \<noteq> [])"
  by (auto simp add: Dialogue_SerializeRequest_def Dialogue_SerializeRequest_Object_fields
      TryGetField_def FString_eq_def ToLower_chars)

text \<open>
  Claim C7. For every writer, the payload of a \<^verbatim>\<open>FAGLDialogueRequest\<close> with
  \<^verbatim>\<open>EventType = Victory\<close>, \<^verbatim>\<open>Emotion = Happy\<close>, \<^verbatim>\<open>Persona = Cheerful\<close>, \<^verbatim>\<open>Language = "en"\<close>
  and \<^verbatim>\<open>bForceLLM = false\<close> is the writer's text of an object with the pairs \<^verbatim>\<open>event_type\<close>
  and \<^verbatim>\<open>player.victory\<close>, \<^verbatim>\<open>emotion\<close> and \<^verbatim>\<open>happy\<close>, \<^verbatim>\<open>persona\<close> and \<^verbatim>\<open>cheerful\<close>,
  \<^verbatim>\<open>force_llm\<close> and false, \<^verbatim>\<open>language\<close> and \<^verbatim>\<open>en\<close>, whatever the player id and the context
  are; with neither of these two set, the object has these five pairs only.
\<close>

theorem dialogue_victory_payload:
  "Dialogue_SerializeRequest write
     \<lparr>DialogueRequest_EventType = Victory, DialogueRequest_Emotion = Happy,
      DialogueRequest_Persona = Persona_Cheerful, DialogueRequest_PlayerId = pid,
      DialogueRequest_Language = ''en'', DialogueRequest_Context = ctx,
      DialogueRequest_bForceLLM = False\<rparr>
   = write
       ([(''event_type'', JString ''player.victory''), (''emotion'', JString ''happy''),
         (''persona'', JString ''cheerful''), (''force_llm'', JBool False)]
        @ (if pid = [] then [] else [(''player_id'', JString pid)])
        @ [(''language'', JString ''en'')]
        @ (if ctx = [] then [] else [(''context'', JObject (SetStringFields ctx []))]))
   \<and> Dialogue_SerializeRequest write
     \<lparr>DialogueRequest_EventType = Victory, DialogueRequest_Emotion = Happy,
      DialogueRequest_Persona = Persona_Cheerful, DialogueRequest_PlayerId = [],
      DialogueRequest_Language = ''en'', DialogueRequest_Context = [],
      DialogueRequest_bForceLLM = False\<rparr>
   = write
       [(''event_type'', JString ''player.victory''), (''emotion'', JString ''happy''),
        (''persona'', JString ''cheerful''), (''force_llm'', JBool False),
        (''language'', JString ''en'')]"
  by (simp add: Dialogue_SerializeRequest_def Dialogue_SerializeRequest_Object_fields)

text \<open>The same payload, with neither player id nor context, in the condensed layout.\<close>

lemma victory_request_condensed_text:
  \<open>Dialogue_SerializeRequest (WriteCondensed (\<lambda>x. FromInt \<lfloor>x\<rfloor>))
     \<lparr>DialogueRequest_EventType = Victory, DialogueRequest_Emotion = Happy,
      DialogueRequest_Persona = Persona_Cheerful, DialogueRequest_PlayerId = [],
      DialogueRequest_Language = ''en'', DialogueRequest_Context = [],
      DialogueRequest_bForceLLM = False\<rparr>
   = ''{"event_type":"player.victory","emotion":"happy","persona":"cheerful","force_llm":false,"language":"en"}''\<close>
  by (simp add: Dialogue_SerializeRequest_def Dialogue_SerializeRequest_Object_fields
      WriteCondensed_def WriteStringValue_def EscapeJsonChar_def)

section \<open>The key of the event type\<close>

text \<open>
  Claim C10. For every writer, the payload of an \<^verbatim>\<open>FAGLEmotionRequest\<close> is the writer's
  text of an object that has the wire string of the event type under the key \<^verbatim>\<open>type\<close>
  and no key \<^verbatim>\<open>event_type\<close>; the payload of a \<^verbatim>\<open>FAGLDialogueRequest\<close> is the writer's text
  of an object that has it under \<^verbatim>\<open>event_type\<close> and has no key \<^verbatim>\<open>type\<close>. The two services
  have the same wire string for each event type.
\<close>

theorem event_type_key_per_service:
  "(\<exists>obj. Emotion_SerializeRequest write er = write obj
          \<and> obj = Emotion_SerializeRequest_Object er
          \<and> TryGetField obj ''type''
              = Some (JString (Emotion_EventTypeToString (EmotionRequest_EventType er)))
          \<and> TryGetField obj ''event_type'' = None
          \<and> ''event_type'' \<notin> fst ` set obj)
   \<and> (\<exists>obj. Dialogue_SerializeRequest write dr = write obj
          \<and> obj = Dialogue_SerializeRequest_Object dr
          \<and> TryGetField obj ''event_type''
              = Some (JString (Dialogue_EventTypeToString (DialogueRequest_EventType dr)))
          \<and> TryGetField obj ''type'' = None
          \<and> ''type'' \<notin> fst ` set obj)
   \<and> Emotion_EventTypeToString e = Dialogue_EventTypeToString e"
proof -
  have same: "Emotion_EventTypeToString e = Dialogue_EventTypeToString e"
    by (cases e) simp_all
  show ?thesis
    using same
    by (auto simp add: Emotion_SerializeRequest_def Dialogue_SerializeRequest_def
        Emotion_SerializeRequest_Object_fields Dialogue_SerializeRequest_Object_fields
        TryGetField_def FString_eq_def ToLower_chars)
qed

section \<open>Request helpers\<close>

lemma digit_value_nth: "d < 10 \<Longrightarrow> digit_value (''0123456789'' ! d) = d"
proof -
  assume "d < 10"
  then have "d \<in> {0, 1, 2, 3, 4, 5, 6, 7, 8, 9}" by auto
  then show ?thesis by (auto simp add: digit_value_def)
qed

lemma decimal_value_snoc: "decimal_value (s @ [c]) = 10 * decimal_value s + digit_value c"
  by (simp add: decimal_value_def)

lemma decimal_value_nat_to_decimal: "decimal_value (nat_to_decimal n) = n"
proof (induction n rule: nat_to_decimal.induct)
  case (1 n)
  show ?case
  proof (cases "n < 10")
    case True
    then show ?thesis
      by (simp add: nat_to_decimal.simps [of n] decimal_value_def digit_value_nth)
  next
    case False
    with 1 have "decimal_value (nat_to_decimal (n div 10)) = n div 10" by simp
    with False show ?thesis
      by (simp add: nat_to_decimal.simps [of n] decimal_value_snoc digit_value_nth)
  qed
qed

lemma nat_to_decimal_nonempty: "nat_to_decimal n \<noteq> []"
  by (subst nat_to_decimal.simps) simp

lemma nat_to_decimal_digits: "c \<in> set (nat_to_decimal n) \<Longrightarrow> c \<in> set ''0123456789''"
proof (induction n rule: nat_to_decimal.induct)
  case (1 n)
  have nth: "\<And>d. d < 10 \<Longrightarrow> ''0123456789'' ! d \<in> set ''0123456789''"
    by (rule nth_mem) simp
  show ?case
  proof (cases "n < 10")
    case True
    with 1(2) nth [of n] show ?thesis
      by (simp add: nat_to_decimal.simps [of n])
  next
    case False
    with 1 nth [of "n mod 10"] show ?thesis
      by (auto simp add: nat_to_decimal.simps [of n])
  qed
qed

text \<open>\<open>FromInt\<close> renders decimally: reading its result back gives the number.\<close>

lemma decimal_to_int_FromInt: "decimal_to_int (FromInt i) = i"
proof (cases "i < 0")
  case True
  then show ?thesis
    by (simp add: decimal_to_int_def FromInt_def decimal_value_nat_to_decimal)
next
  case False
  obtain c cs where s: "nat_to_decimal (nat i) = c # cs"
    using nat_to_decimal_nonempty [of "nat i"] by (cases "nat_to_decimal (nat i)") auto
  then have "c \<in> set (nat_to_decimal (nat i))" by simp
  then have "c \<in> set ''0123456789''" by (rule nat_to_decimal_digits)
  then have "c \<noteq> CHR ''-''" by auto
  with False s decimal_value_nat_to_decimal [of "nat i"] show ?thesis
    by (simp add: decimal_to_int_def FromInt_def)
qed

text \<open>
  Claim C8. For all arguments, \<^verbatim>\<open>CreateVictoryRequest\<close> returns a request with
  \<^verbatim>\<open>EventType = Victory\<close> whose \<^verbatim>\<open>Data\<close> map has exactly the two entries \<^verbatim>\<open>mvp\<close>
  (\<^verbatim>\<open>"true"\<close> or \<^verbatim>\<open>"false"\<close>) and \<^verbatim>\<open>winStreak\<close> (the decimal string of the number), an empty
  \<^verbatim>\<open>Context\<close> and \<^verbatim>\<open>bForceML = false\<close>; for \<^verbatim>\<open>(true, 3)\<close> the entries are \<^verbatim>\<open>"true"\<close> and \<^verbatim>\<open>"3"\<close>;
  and the \<^verbatim>\<open>winStreak\<close> entry read back as a decimal is the number passed in. The
  result is a function of the arguments alone.
\<close>

theorem CreateVictoryRequest_data:
  "CreateVictoryRequest bIsMVP WinStreak =
     \<lparr>EmotionRequest_EventType = Victory,
      EmotionRequest_Data =
        [(''mvp'', if bIsMVP then ''true'' else ''false''), (''winStreak'', FromInt WinStreak)],
      EmotionRequest_Context = [], EmotionRequest_bForceML = False\<rparr>
   \<and> CreateVictoryRequest True 3 =
     \<lparr>EmotionRequest_EventType = Victory,
      EmotionRequest_Data = [(''mvp'', ''true''), (''winStreak'', ''3'')],
      EmotionRequest_Context = [], EmotionRequest_bForceML = False\<rparr>
   \<and> map_option decimal_to_int
       (map_of (EmotionRequest_Data (CreateVictoryRequest bIsMVP WinStreak)) ''winStreak'')
     = Some WinStreak"
proof -
  have general:
    "CreateVictoryRequest bIsMVP WinStreak =
       \<lparr>EmotionRequest_EventType = Victory,
        EmotionRequest_Data =
          [(''mvp'', if bIsMVP then ''true'' else ''false''), (''winStreak'', FromInt WinStreak)],
        EmotionRequest_Context = [], EmotionRequest_bForceML = False\<rparr>" for bIsMVP WinStreak
    by (simp add: CreateVictoryRequest_def Let_def FString_eq_def ToLower_chars)
  have three: "FromInt 3 = ''3''"
    by (simp add: FromInt_def nat_to_decimal.simps)
  show ?thesis
    using general [of True 3] three
    by (simp add: general decimal_to_int_FromInt)
qed

section \<open>Client facade\<close>

text \<open>
  Claim C9. \<^verbatim>\<open>Initialize\<close> with an empty \<^verbatim>\<open>ApiKey\<close> leaves \<^verbatim>\<open>IsInitialized()\<close> and the three
  service pointers as they were, so on a new client \<^verbatim>\<open>IsInitialized()\<close> stays false and
  the three getters return null; yet \<^verbatim>\<open>GetConfig()\<close> afterwards returns the rejected
  config.
\<close>

theorem Initialize_empty_ApiKey:
  "Config_ApiKey cfg = [] \<Longrightarrow>
     IsInitialized (Client_Initialize cfg C) = IsInitialized C
     \<and> GetEmotionService (Client_Initialize cfg C) = GetEmotionService C
     \<and> GetDialogueService (Client_Initialize cfg C) = GetDialogueService C
     \<and> GetMemoryService (Client_Initialize cfg C) = GetMemoryService C
     \<and> GetConfig (Client_Initialize cfg C) = cfg
     \<and> \<not> IsInitialized (Client_Initialize cfg UAGLClient_new)
     \<and> GetEmotionService (Client_Initialize cfg UAGLClient_new) = None
     \<and> GetDialogueService (Client_Initialize cfg UAGLClient_new) = None
     \<and> GetMemoryService (Client_Initialize cfg UAGLClient_new) = None"
  by (simp add: Client_Initialize_def Let_def IsInitialized_def GetEmotionService_def
      GetDialogueService_def GetMemoryService_def GetConfig_def UAGLClient_new_def)

theorem Initialize_empty_ApiKey_witness:
  "Config_ApiKey (FAGLConfig_default\<lparr>Config_Timeout := 5\<rparr>) = []
   \<and> \<not> IsInitialized (Client_Initialize (FAGLConfig_default\<lparr>Config_Timeout := 5\<rparr>) UAGLClient_new)
   \<and> GetEmotionService (Client_Initialize (FAGLConfig_default\<lparr>Config_Timeout := 5\<rparr>) UAGLClient_new)
       = None
   \<and> GetConfig (Client_Initialize (FAGLConfig_default\<lparr>Config_Timeout := 5\<rparr>) UAGLClient_new)
       = FAGLConfig_default\<lparr>Config_Timeout := 5\<rparr>
   \<and> GetConfig (Client_Initialize (FAGLConfig_default\<lparr>Config_Timeout := 5\<rparr>) UAGLClient_new)
       \<noteq> GetConfig UAGLClient_new"
proof -
  have key: "Config_ApiKey (FAGLConfig_default\<lparr>Config_Timeout := 5\<rparr>) = []"
    by (simp add: FAGLConfig_default_def)
  have changed: "FAGLConfig_default\<lparr>Config_Timeout := 5\<rparr> \<noteq> GetConfig UAGLClient_new"
    by (simp add: FAGLConfig_default_def GetConfig_def UAGLClient_new_def)
  from Initialize_empty_ApiKey [OF key, of UAGLClient_new] key changed
  show ?thesis by metis
qed

end
